theory Spec2Isabelle
  imports Main
begin

section \<open>The string functions of package strings that the router calls\<close>

text \<open>
  Go strings are byte sequences; they are modelled as \<open>string\<close> (a list of characters).
  Every separator the router looks for is a single ASCII byte, so byte positions and
  character positions coincide.
\<close>

definition HasPrefix :: "string \<Rightarrow> string \<Rightarrow> bool" where
  "HasPrefix s pre = (length pre \<le> length s \<and> take (length pre) s = pre)"

definition HasSuffix :: "string \<Rightarrow> string \<Rightarrow> bool" where
  "HasSuffix s suf = (length suf \<le> length s \<and> drop (length s - length suf) s = suf)"

definition TrimPrefix :: "string \<Rightarrow> string \<Rightarrow> string" where
  "TrimPrefix s pre = (if HasPrefix s pre then drop (length pre) s else s)"

definition TrimSuffix :: "string \<Rightarrow> string \<Rightarrow> string" where
  "TrimSuffix s suf = (if HasSuffix s suf then take (length s - length suf) s else s)"

text \<open>\<open>strings.IndexAny\<close>: the index of the first byte of \<open>s\<close> that occurs in \<open>chars\<close>, or -1.\<close>

fun IndexAny :: "string \<Rightarrow> string \<Rightarrow> int" where
  "IndexAny [] chars = - 1"
| "IndexAny (c # s) chars =
     (if c \<in> set chars then 0
      else (let i = IndexAny s chars in if i < 0 then - 1 else i + 1))"

definition TrimLeft :: "string \<Rightarrow> string \<Rightarrow> string" where
  "TrimLeft s cutset = dropWhile (\<lambda>c. c \<in> set cutset) s"

text \<open>
  \<open>strings.Contains\<close> and \<open>strings.ReplaceAll\<close> are only ever called with one-byte
  arguments (\<open>"-"\<close> and \<open>"_"\<close>), so the byte is the parameter.
\<close>

definition Contains :: "string \<Rightarrow> char \<Rightarrow> bool" where
  "Contains s c = (c \<in> set s)"

definition ReplaceAll :: "string \<Rightarrow> char \<Rightarrow> char \<Rightarrow> string" where
  "ReplaceAll s old new = map (\<lambda>c. if c = old then new else c) s"

text \<open>The cut set \<open>" \t"\<close> of \<open>fullPattern\<close>: a space and a horizontal tab.\<close>

definition space_tab :: string where
  "space_tab = [CHR '' '', CHR 0x09]"

section \<open>PathJoiner: buildRootPath\<close>

text \<open>
  The loop \<open>for _, p := range paths\<close> with its accumulator \<open>path\<close>; \<open>continue\<close> is the
  branch that leaves the accumulator alone.
\<close>

fun buildRootPath_loop :: "string \<Rightarrow> string list \<Rightarrow> string" where
  "buildRootPath_loop path [] = path"
| "buildRootPath_loop path (p # paths) =
     (if p = '''' \<or> p = ''/'' then buildRootPath_loop path paths
      else buildRootPath_loop (path @ ''/'' @ TrimSuffix (TrimPrefix p ''/'') ''/'') paths)"

definition buildRootPath :: "string list \<Rightarrow> string" where
  "buildRootPath paths = buildRootPath_loop '''' paths"

text \<open>
  The components of a path: the pieces between its slashes (\<open>"/a/b"\<close> has the components
  \<open>""\<close>, \<open>"a"\<close>, \<open>"b"\<close>; the first one is what stands before the leading slash).
\<close>

fun components :: "string \<Rightarrow> string list" where
  "components [] = [[]]"
| "components (c # s) =
     (if c = CHR ''/'' then [] # components s
      else (case components s of [] \<Rightarrow> [[c]] | x # xs \<Rightarrow> (c # x) # xs))"

text \<open>The segments the loop keeps, and what it appends for each of them.\<close>

definition kept :: "string list \<Rightarrow> string list" where
  "kept paths = filter (\<lambda>p. p \<noteq> '''' \<and> p \<noteq> ''/'') paths"

definition strip1 :: "string \<Rightarrow> string" where
  "strip1 p = TrimSuffix (TrimPrefix p ''/'') ''/''"

section \<open>Requests, response writers and the status interceptor\<close>

text \<open>Of \<open>*http.Request\<close> the router reads \<open>r.Method\<close> and \<open>r.URL.Path\<close>.\<close>

record request =
  Method :: string
  Path :: string

text \<open>
  The underlying \<open>http.ResponseWriter\<close> is an interface of the transport. It is modelled
  by what it receives: the header map, the status codes passed to \<open>WriteHeader\<close> and the
  chunks passed to \<open>Write\<close>, each in call order.
\<close>

record response =
  headers :: "(string \<times> string) list"
  codes :: "int list"
  chunks :: "string list"

record statusInterceptor =
  ResponseWriter :: response
  originalPath :: string
  Status :: int

text \<open>
  \<open>Header().Get(key)\<close>: the value stored under the key, or the empty string.
  \<open>http.Header\<close> puts a key into its canonical form first; the keys used below
  (\<open>Location\<close>, \<open>X-Top-Level\<close>, \<open>X-Not-Found\<close>) are canonical already, so the model
  compares keys as they are.
\<close>

definition Header_Get :: "response \<Rightarrow> string \<Rightarrow> string" where
  "Header_Get w key = (case map_of (headers w) key of None \<Rightarrow> '''' | Some v \<Rightarrow> v)"

definition Header_Set :: "response \<Rightarrow> string \<Rightarrow> string \<Rightarrow> response" where
  "Header_Set w key v = w\<lparr>headers := (key, v) # headers w\<rparr>"

definition response_WriteHeader :: "response \<Rightarrow> int \<Rightarrow> response" where
  "response_WriteHeader w code = w\<lparr>codes := codes w @ [code]\<rparr>"

definition response_Write :: "response \<Rightarrow> string \<Rightarrow> response" where
  "response_Write w b = w\<lparr>chunks := chunks w @ [b]\<rparr>"

definition StatusMovedPermanently :: int where
  "StatusMovedPermanently = 301"

definition StatusTemporaryRedirect :: int where
  "StatusTemporaryRedirect = 307"

definition StatusNotFound :: int where
  "StatusNotFound = 404"

text \<open>\<open>(*statusInterceptor).WriteHeader\<close>, the early \<open>return\<close> being the inner then-branch.\<close>

definition statusInterceptor_WriteHeader :: "statusInterceptor \<Rightarrow> int \<Rightarrow> statusInterceptor" where
  "statusInterceptor_WriteHeader wrapper code =
     (if code = StatusMovedPermanently
      then (let location = Header_Get (ResponseWriter wrapper) ''Location'' in
        if location = originalPath wrapper @ ''/''
        then wrapper\<lparr>Status := StatusTemporaryRedirect,
                     ResponseWriter :=
                       response_WriteHeader (ResponseWriter wrapper) StatusTemporaryRedirect\<rparr>
        else wrapper\<lparr>ResponseWriter := response_WriteHeader (ResponseWriter wrapper) code\<rparr>)
      else wrapper\<lparr>ResponseWriter := response_WriteHeader (ResponseWriter wrapper) code\<rparr>)"

text \<open>
  A value of interface type \<open>http.ResponseWriter\<close> as the router sees it: the transport's
  writer, or one already wrapped in a \<open>*statusInterceptor\<close> (the type test of
  \<open>toStatusInterceptor\<close>).
\<close>

datatype writer = Plain response | Intercepted statusInterceptor

definition toStatusInterceptor :: "writer \<Rightarrow> request \<Rightarrow> statusInterceptor" where
  "toStatusInterceptor w r =
     (case w of
        Intercepted si \<Rightarrow> si
      | Plain p \<Rightarrow> \<lparr>ResponseWriter = p, originalPath = Path r, Status = 0\<rparr>)"

text \<open>The methods of the interface, dispatched on the dynamic type.\<close>

definition underlying :: "writer \<Rightarrow> response" where
  "underlying w = (case w of Plain p \<Rightarrow> p | Intercepted si \<Rightarrow> ResponseWriter si)"

definition WriteHeader :: "writer \<Rightarrow> int \<Rightarrow> writer" where
  "WriteHeader w code =
     (case w of
        Plain p \<Rightarrow> Plain (response_WriteHeader p code)
      | Intercepted si \<Rightarrow> Intercepted (statusInterceptor_WriteHeader si code))"

definition Write :: "writer \<Rightarrow> string \<Rightarrow> writer" where
  "Write w b =
     (case w of
        Plain p \<Rightarrow> Plain (response_Write p b)
      | Intercepted si \<Rightarrow> Intercepted (si\<lparr>ResponseWriter := response_Write (ResponseWriter si) b\<rparr>))"

definition SetHeader :: "writer \<Rightarrow> string \<Rightarrow> string \<Rightarrow> writer" where
  "SetHeader w key v =
     (case w of
        Plain p \<Rightarrow> Plain (Header_Set p key v)
      | Intercepted si \<Rightarrow> Intercepted (si\<lparr>ResponseWriter := Header_Set (ResponseWriter si) key v\<rparr>))"

section \<open>Handlers, middleware, the mux wrapper and the router\<close>

text \<open>
  \<open>http.Handler\<close>: \<open>ServeHTTP(w, r)\<close> writes to \<open>w\<close>; the model returns the writer as the
  handler leaves it. \<open>middleware\<close> is \<open>func(http.Handler) http.Handler\<close>.
\<close>

type_synonym handler = "writer \<Rightarrow> request \<Rightarrow> writer"

type_synonym middleware = "handler \<Rightarrow> handler"

text \<open>
  \<open>*http.ServeMux\<close> is the external dispatcher. What the router does to it is a sequence
  of \<open>Handle(pattern, handler)\<close> calls, kept in call order.
\<close>

type_synonym serveMux = "(string \<times> handler) list"

record muxWrapper =
  ServeMux :: serveMux
  httpHandler :: "middleware option"
  notFoundHandler :: "handler option"
  rootPath :: string

record Router =
  mux :: muxWrapper
  rchain :: "middleware list"

definition fullPattern :: "muxWrapper \<Rightarrow> string \<Rightarrow> string" where
  "fullPattern m pattern =
     (if rootPath m = '''' then pattern
      else (let i = IndexAny pattern space_tab in
        if i \<ge> 0
        then (let method = take (nat i) pattern;
                  path = TrimLeft (drop (nat i) pattern) space_tab
              in method @ '' '' @ rootPath m @ path)
        else rootPath m @ pattern))"

text \<open>
  \<open>(*ServeMux).Handle\<close> as the router uses it: one more registration. Which requests a
  pattern matches is the dispatcher's business. This is the registration the dispatcher
  has taken; that it panics on a pattern it refuses is written out in
  \<open>ServeMux_Handle_checked\<close> and \<open>muxWrapper_Handle_checked\<close> below, which give the state
  defined here exactly when every pattern is taken.
\<close>

definition ServeMux_Handle :: "serveMux \<Rightarrow> string \<Rightarrow> handler \<Rightarrow> serveMux" where
  "ServeMux_Handle sm pattern h = sm @ [(pattern, h)]"

definition muxWrapper_Handle :: "muxWrapper \<Rightarrow> string \<Rightarrow> handler \<Rightarrow> muxWrapper" where
  "muxWrapper_Handle m pattern0 h =
     (let pattern = fullPattern m pattern0;
          m1 = m\<lparr>ServeMux := ServeMux_Handle (ServeMux m) pattern h\<rparr>
      in if Contains pattern CHR ''-''
         then m1\<lparr>ServeMux :=
                  ServeMux_Handle (ServeMux m1) (ReplaceAll pattern CHR ''-'' CHR ''_'') h\<rparr>
         else if Contains pattern CHR ''_''
         then m1\<lparr>ServeMux :=
                  ServeMux_Handle (ServeMux m1) (ReplaceAll pattern CHR ''_'' CHR ''-'') h\<rparr>
         else m1)"

text \<open>
  Modelled from the spec: the external dispatcher's \<open>resolve(method, path) -> (handler,
  matchedPattern)\<close>, which is \<open>(*ServeMux).Handler\<close> of net/http and is not part of this
  repository. It is a parameter of dispatch: a function from the registrations and the
  request to a handler and the matched pattern, the pattern being empty when nothing
  matched. \<open>(*ServeMux).ServeHTTP\<close> resolves the same way and runs the handler.
\<close>

type_synonym dispatcher = "serveMux \<Rightarrow> request \<Rightarrow> handler \<times> string"

definition ServeMux_ServeHTTP :: "dispatcher \<Rightarrow> serveMux \<Rightarrow> handler" where
  "ServeMux_ServeHTTP resolve sm w r = fst (resolve sm r) w r"

text \<open>
  The tail of \<open>(*muxWrapper).ServeHTTP\<close>: the global wrapper around the dispatcher's own
  resolve-and-serve step when one is set, the dispatcher alone otherwise.
\<close>

definition muxWrapper_serve :: "dispatcher \<Rightarrow> muxWrapper \<Rightarrow> handler" where
  "muxWrapper_serve resolve m w r =
     (case httpHandler m of
        Some g \<Rightarrow> g (ServeMux_ServeHTTP resolve (ServeMux m)) w r
      | None \<Rightarrow> ServeMux_ServeHTTP resolve (ServeMux m) w r)"

definition muxWrapper_ServeHTTP :: "dispatcher \<Rightarrow> muxWrapper \<Rightarrow> handler" where
  "muxWrapper_ServeHTTP resolve m w0 r =
     (let w = Intercepted (toStatusInterceptor w0 r) in
      case notFoundHandler m of
        Some nf \<Rightarrow>
          (let matchedPattern = snd (resolve (ServeMux m) r) in
           if matchedPattern = '''' then nf w r else muxWrapper_serve resolve m w r)
      | None \<Rightarrow> muxWrapper_serve resolve m w r)"

definition newMuxWrapper :: "string list \<Rightarrow> muxWrapper" where
  "newMuxWrapper paths =
     \<lparr>ServeMux = [], httpHandler = None, notFoundHandler = None,
      rootPath = buildRootPath paths\<rparr>"

subsection \<open>Router\<close>

definition NewRouter :: "middleware list \<Rightarrow> Router" where
  "NewRouter chain = \<lparr>mux = newMuxWrapper [], rchain = chain\<rparr>"

definition SetHandler :: "Router \<Rightarrow> middleware \<Rightarrow> Router" where
  "SetHandler r h = r\<lparr>mux := (mux r)\<lparr>httpHandler := Some h\<rparr>\<rparr>"

definition SetNotFoundHandler :: "Router \<Rightarrow> handler \<Rightarrow> Router" where
  "SetNotFoundHandler r h = r\<lparr>mux := (mux r)\<lparr>notFoundHandler := Some h\<rparr>\<rparr>"

definition Router_ServeHTTP :: "dispatcher \<Rightarrow> Router \<Rightarrow> handler" where
  "Router_ServeHTTP resolve r w req = muxWrapper_ServeHTTP resolve (mux r) w req"

definition BasePath :: "Router \<Rightarrow> string" where
  "BasePath r = rootPath (mux r)"

definition SetBasePath :: "Router \<Rightarrow> string \<Rightarrow> Router" where
  "SetBasePath r path = r\<lparr>mux := (mux r)\<lparr>rootPath := path\<rparr>\<rparr>"

definition AppendPath :: "Router \<Rightarrow> string \<Rightarrow> Router" where
  "AppendPath r path =
     r\<lparr>mux := (mux r)\<lparr>rootPath := buildRootPath [rootPath (mux r), path]\<rparr>\<rparr>"

definition Use :: "Router \<Rightarrow> middleware list \<Rightarrow> Router" where
  "Use r chain = r\<lparr>rchain := rchain r @ chain\<rparr>"

text \<open>
  The two loops of \<open>(*Router).wrap\<close>, \<open>for idx := len(chain) - 1; idx >= 0; idx--\<close>: the
  counter of \<open>wrap_loop\<close> is \<open>idx + 1\<close>, so the loop stops at \<open>0\<close> and every index read is
  in range.
\<close>

fun wrap_loop :: "middleware list \<Rightarrow> nat \<Rightarrow> handler \<Rightarrow> handler" where
  "wrap_loop chain 0 out = out"
| "wrap_loop chain (Suc idx) out = wrap_loop chain idx ((chain ! idx) out)"

definition wrap :: "Router \<Rightarrow> handler \<Rightarrow> middleware list \<Rightarrow> handler" where
  "wrap r fn chain =
     wrap_loop (rchain r) (length (rchain r)) (wrap_loop chain (length chain) fn)"

definition Router_handle ::
  "Router \<Rightarrow> string \<Rightarrow> string \<Rightarrow> handler \<Rightarrow> middleware list \<Rightarrow> Router" where
  "Router_handle r method path fn chain =
     r\<lparr>mux := muxWrapper_Handle (mux r) (method @ '' '' @ path) (wrap r fn chain)\<rparr>"

definition Get :: "Router \<Rightarrow> string \<Rightarrow> handler \<Rightarrow> middleware list \<Rightarrow> Router" where
  "Get r path fn chain = Router_handle r ''GET'' path fn chain"

definition Post :: "Router \<Rightarrow> string \<Rightarrow> handler \<Rightarrow> middleware list \<Rightarrow> Router" where
  "Post r path fn chain = Router_handle r ''POST'' path fn chain"

definition Put :: "Router \<Rightarrow> string \<Rightarrow> handler \<Rightarrow> middleware list \<Rightarrow> Router" where
  "Put r path fn chain = Router_handle r ''PUT'' path fn chain"

definition Delete :: "Router \<Rightarrow> string \<Rightarrow> handler \<Rightarrow> middleware list \<Rightarrow> Router" where
  "Delete r path fn chain = Router_handle r ''DELETE'' path fn chain"

definition Head :: "Router \<Rightarrow> string \<Rightarrow> handler \<Rightarrow> middleware list \<Rightarrow> Router" where
  "Head r path fn chain = Router_handle r ''HEAD'' path fn chain"

definition Options :: "Router \<Rightarrow> string \<Rightarrow> handler \<Rightarrow> middleware list \<Rightarrow> Router" where
  "Options r path fn chain = Router_handle r ''OPTIONS'' path fn chain"

definition Any :: "Router \<Rightarrow> string \<Rightarrow> handler \<Rightarrow> middleware list \<Rightarrow> Router" where
  "Any r path fn chain = r\<lparr>mux := muxWrapper_Handle (mux r) path (wrap r fn chain)\<rparr>"

text \<open>\<open>(*Router).Handle\<close>, the exported form with the method as a parameter.\<close>

definition Router_Handle ::
  "Router \<Rightarrow> string \<Rightarrow> string \<Rightarrow> handler \<Rightarrow> middleware list \<Rightarrow> Router" where
  "Router_Handle r method path fn chain = Router_handle r method path fn chain"

text \<open>\<open>(*Router).Mount\<close>: the handler \<open>h.ServeHTTP\<close> under the path with its slash forced.\<close>

definition Mount :: "Router \<Rightarrow> string \<Rightarrow> handler \<Rightarrow> middleware list \<Rightarrow> Router" where
  "Mount r path0 h chain =
     (let path = TrimSuffix path0 ''/'' @ ''/''
      in r\<lparr>mux := muxWrapper_Handle (mux r) path (wrap r h chain)\<rparr>)"

text \<open>\<open>(*Router).NotFound\<close>, the direct-call entry point.\<close>

definition NotFound :: "Router \<Rightarrow> handler" where
  "NotFound r writer req =
     (case notFoundHandler (mux r) of
        Some nf \<Rightarrow> nf writer req
      | None \<Rightarrow> Write (WriteHeader writer StatusNotFound) ''{\"error\": \"Not Found\"}'')"

text \<open>The registrations a router gained between two of its states.\<close>

definition registered_since :: "Router \<Rightarrow> Router \<Rightarrow> (string \<times> handler) list" where
  "registered_since r r' = drop (length (ServeMux (mux r))) (ServeMux (mux r'))"

subsection \<open>Handlers and middleware of the kind the test suite uses\<close>

text \<open>
  A middleware that announces itself (by writing its name) and then calls \<open>next\<close>, and a
  handler that writes its name: the order of the chunks written is the order of execution.
\<close>

definition announce :: "string \<Rightarrow> middleware" where
  "announce name next w r = next (Write w name) r"

definition terminal :: "string \<Rightarrow> handler" where
  "terminal name w r = Write w name"

text \<open>A middleware that sets a response header and then calls \<open>next\<close>.\<close>

definition set_header :: "string \<Rightarrow> string \<Rightarrow> middleware" where
  "set_header key v next w r = next (SetHeader w key v) r"

text \<open>The custom not-found handler of the tests: a header, status 404 and a body.\<close>

definition custom_not_found :: handler where
  "custom_not_found w r =
     Write (WriteHeader (SetHeader w ''X-Not-Found'' ''custom'') StatusNotFound) ''custom not found''"

text \<open>
  Modelled from the spec: a stand-in for the external dispatcher on patterns without
  wildcards, for evaluating dispatch on concrete requests. A request is resolved by the
  first registration whose pattern is \<open>"METHOD path"\<close> or the bare \<open>path\<close>; when there is
  none, the handler is the default not-found response and the matched pattern is empty.
  It is used on requests whose path no registration names, where net/http answers 404
  as well; of that answer the stand-in keeps the status and the text, not the headers
  net/http adds. It does not know wildcards, method fallbacks (405, HEAD on GET) or
  precedence among several matching patterns.
\<close>

definition NotFoundHandler :: handler where
  "NotFoundHandler w r = Write (WriteHeader w StatusNotFound) ''404 page not found''"

definition literal_resolve :: dispatcher where
  "literal_resolve sm r =
     (case find (\<lambda>e. fst e = Method r @ '' '' @ Path r \<or> fst e = Path r) sm of
        Some e \<Rightarrow> (snd e, fst e)
      | None \<Rightarrow> (NotFoundHandler, ''''))"

definition empty_response :: response where
  "empty_response = \<lparr>headers = [], codes = [], chunks = []\<rparr>"

text \<open>
  The normalized form of a root path: empty, or starting with a slash and not ending
  with one.
\<close>

definition normalized :: "string \<Rightarrow> bool" where
  "normalized p = (p = '''' \<or> (HasPrefix p ''/'' \<and> \<not> HasSuffix p ''/''))"

subsection \<open>Faults: a refused pattern, a call through a nil handler\<close>

text \<open>
  Go panics where net/http refuses a pattern and where a nil function value or a nil
  interface is called. Both are values here.
\<close>

datatype fault = RefusedPattern string | NilHandler

text \<open>
  \<open>(*ServeMux).Handle\<close> belongs to net/http and panics on a pattern it cannot parse or
  that conflicts with a registered one. Whether it takes a pattern, given the
  registrations so far, is a parameter of registration.
\<close>

type_synonym acceptance = "serveMux \<Rightarrow> string \<Rightarrow> bool"

definition ServeMux_Handle_checked ::
  "acceptance \<Rightarrow> serveMux \<Rightarrow> string \<Rightarrow> handler \<Rightarrow> fault + serveMux" where
  "ServeMux_Handle_checked accepts sm pattern h =
     (if accepts sm pattern then Inr (ServeMux_Handle sm pattern h)
      else Inl (RefusedPattern pattern))"

text \<open>
  \<open>(*muxWrapper).Handle\<close> with the dispatcher's refusals: a panic of any of its calls of
  \<open>ServeMux.Handle\<close> ends the registration.
\<close>

definition muxWrapper_Handle_checked ::
  "acceptance \<Rightarrow> muxWrapper \<Rightarrow> string \<Rightarrow> handler \<Rightarrow> fault + muxWrapper" where
  "muxWrapper_Handle_checked accepts m pattern0 h =
     (let pattern = fullPattern m pattern0 in
      case ServeMux_Handle_checked accepts (ServeMux m) pattern h of
        Inl e \<Rightarrow> Inl e
      | Inr sm1 \<Rightarrow>
          if Contains pattern CHR ''-''
          then (case ServeMux_Handle_checked accepts sm1 (ReplaceAll pattern CHR ''-'' CHR ''_'') h of
                  Inl e \<Rightarrow> Inl e
                | Inr sm2 \<Rightarrow> Inr (m\<lparr>ServeMux := sm2\<rparr>))
          else if Contains pattern CHR ''_''
          then (case ServeMux_Handle_checked accepts sm1 (ReplaceAll pattern CHR ''_'' CHR ''-'') h of
                  Inl e \<Rightarrow> Inl e
                | Inr sm2 \<Rightarrow> Inr (m\<lparr>ServeMux := sm2\<rparr>))
          else Inr (m\<lparr>ServeMux := sm1\<rparr>))"

definition Router_handle_checked ::
  "acceptance \<Rightarrow> Router \<Rightarrow> string \<Rightarrow> string \<Rightarrow> handler \<Rightarrow> middleware list \<Rightarrow> fault + Router" where
  "Router_handle_checked accepts r method path fn chain =
     (case muxWrapper_Handle_checked accepts (mux r) (method @ '' '' @ path) (wrap r fn chain) of
        Inl e \<Rightarrow> Inl e
      | Inr m \<Rightarrow> Inr (r\<lparr>mux := m\<rparr>))"

definition Get_checked ::
  "acceptance \<Rightarrow> Router \<Rightarrow> string \<Rightarrow> handler \<Rightarrow> middleware list \<Rightarrow> fault + Router" where
  "Get_checked accepts r path fn chain = Router_handle_checked accepts r ''GET'' path fn chain"

text \<open>
  A stand-in for the pattern check of net/http, for evaluating registration on concrete
  patterns. It refuses for two of net/http's reasons only: a wildcard name (the text
  between braces) must be a Go identifier, so it cannot hold a hyphen, and a pattern
  that is registered already is a conflict.
\<close>

fun wildcard_names_ok :: "bool \<Rightarrow> string \<Rightarrow> bool" where
  "wildcard_names_ok inside [] = True"
| "wildcard_names_ok inside (c # s) =
     (if c = CHR ''{'' then wildcard_names_ok True s
      else if c = CHR ''}'' then wildcard_names_ok False s
      else if inside \<and> c = CHR ''-'' then False
      else wildcard_names_ok inside s)"

definition standin_accepts :: acceptance where
  "standin_accepts sm pattern =
     (pattern \<notin> set (map fst sm) \<and> wildcard_names_ok False pattern)"

text \<open>
  The calls of \<open>(*muxWrapper).ServeHTTP\<close> through its two optional fields, each behind its
  nil test: calling a nil field would panic.
\<close>

definition call_handler :: "handler option \<Rightarrow> writer \<Rightarrow> request \<Rightarrow> fault + writer" where
  "call_handler h w r = (case h of None \<Rightarrow> Inl NilHandler | Some f \<Rightarrow> Inr (f w r))"

definition call_middleware ::
  "middleware option \<Rightarrow> handler \<Rightarrow> writer \<Rightarrow> request \<Rightarrow> fault + writer" where
  "call_middleware g next w r =
     (case g of None \<Rightarrow> Inl NilHandler | Some f \<Rightarrow> Inr (f next w r))"

definition muxWrapper_serve_guarded ::
  "dispatcher \<Rightarrow> muxWrapper \<Rightarrow> writer \<Rightarrow> request \<Rightarrow> fault + writer" where
  "muxWrapper_serve_guarded resolve m w r =
     (if httpHandler m \<noteq> None
      then call_middleware (httpHandler m) (ServeMux_ServeHTTP resolve (ServeMux m)) w r
      else Inr (ServeMux_ServeHTTP resolve (ServeMux m) w r))"

definition muxWrapper_ServeHTTP_guarded ::
  "dispatcher \<Rightarrow> muxWrapper \<Rightarrow> writer \<Rightarrow> request \<Rightarrow> fault + writer" where
  "muxWrapper_ServeHTTP_guarded resolve m w0 r =
     (let w = Intercepted (toStatusInterceptor w0 r) in
      if notFoundHandler m \<noteq> None
      then (let matchedPattern = snd (resolve (ServeMux m) r) in
            if matchedPattern = '''' then call_handler (notFoundHandler m) w r
            else muxWrapper_serve_guarded resolve m w r)
      else muxWrapper_serve_guarded resolve m w r)"

text \<open>
  The short-circuiting global wrapper of the tests: a request that is to be blocked (the
  tests look at a request header) is answered with 403 and \<open>next\<close> is not called.
\<close>

definition StatusForbidden :: int where
  "StatusForbidden = 403"

definition blocking :: "(request \<Rightarrow> bool) \<Rightarrow> middleware" where
  "blocking blocked next w r =
     (if blocked r then Write (WriteHeader w StatusForbidden) ''blocked'' else next w r)"

section \<open>Auxiliary facts\<close>

lemma components_ne [simp]: "components s \<noteq> []"
  by (induction s) (auto split: list.splits)

lemma components_append_slash:
  "components (a @ CHR ''/'' # b) = components a @ components b"
  by (induction a) (auto split: list.splits)

lemma buildRootPath_loop_eq:
  "buildRootPath_loop acc ps = acc @ concat (map (\<lambda>p. ''/'' @ strip1 p) (kept ps))"
  by (induction ps arbitrary: acc) (auto simp: kept_def strip1_def)

lemma buildRootPath_eq:
  "buildRootPath ps = concat (map (\<lambda>p. ''/'' @ strip1 p) (kept ps))"
  by (simp add: buildRootPath_def buildRootPath_loop_eq)

lemma buildRootPath_append:
  "buildRootPath (ps @ qs) = buildRootPath ps @ buildRootPath qs"
  by (simp add: buildRootPath_eq kept_def)

lemma components_concat:
  "components (acc @ concat (map (\<lambda>s. CHR ''/'' # s) xs)) = components acc @ concat (map components xs)"
proof (induction xs arbitrary: acc rule: rev_induct)
  case Nil
  then show ?case by simp
next
  case (snoc x xs)
  have "components (acc @ concat (map ((#) CHR ''/'') (xs @ [x])))
      = components ((acc @ concat (map ((#) CHR ''/'') xs)) @ CHR ''/'' # x)" by simp
  also have "\<dots> = components (acc @ concat (map ((#) CHR ''/'') xs)) @ components x"
    by (rule components_append_slash)
  finally show ?case using snoc by simp
qed

lemma HasSuffix_single: "HasSuffix s [c] \<longleftrightarrow> s \<noteq> [] \<and> last s = c"
proof (cases s rule: rev_cases)
  case Nil
  then show ?thesis by (simp add: HasSuffix_def)
next
  case (snoc ys y)
  then show ?thesis by (auto simp: HasSuffix_def)
qed

lemma HasPrefix_single: "HasPrefix s [c] \<longleftrightarrow> s \<noteq> [] \<and> hd s = c"
  by (cases s) (auto simp: HasPrefix_def)

lemma HasSuffix_iff: "HasSuffix s suf \<longleftrightarrow> (\<exists>t. s = t @ suf)"
proof
  assume "HasSuffix s suf"
  then have "drop (length s - length suf) s = suf" by (simp add: HasSuffix_def)
  then have "s = take (length s - length suf) s @ suf" by (metis append_take_drop_id)
  then show "\<exists>t. s = t @ suf" ..
next
  assume "\<exists>t. s = t @ suf"
  then show "HasSuffix s suf" by (auto simp: HasSuffix_def)
qed

lemma TrimPrefix_slash:
  "TrimPrefix p ''/'' = (case p of [] \<Rightarrow> [] | c # s \<Rightarrow> if c = CHR ''/'' then s else p)"
  by (cases p) (auto simp: TrimPrefix_def HasPrefix_def)

lemma TrimSuffix_slash:
  "TrimSuffix p ''/'' = (if p \<noteq> [] \<and> last p = CHR ''/'' then butlast p else p)"
  by (cases p rule: rev_cases) (auto simp: TrimSuffix_def HasSuffix_def)

lemma TrimSuffix_snoc: "TrimSuffix (t @ [c]) ''/'' = (if c = CHR ''/'' then t else t @ [c])"
  by (simp add: TrimSuffix_slash)

lemma HasSuffix_snoc2: "HasSuffix (zs @ [z, y]) [d, e] \<longleftrightarrow> z = d \<and> y = e"
  by (simp add: HasSuffix_def)

lemma HasSuffix_snoc1: "HasSuffix (zs @ [y]) [e] \<longleftrightarrow> y = e"
  by (simp add: HasSuffix_def)

lemma TrimSuffix_trailing:
  assumes "q \<noteq> []"
  shows "(TrimSuffix q ''/'' = [] \<or> HasSuffix (TrimSuffix q ''/'') ''/'') \<longleftrightarrow> (q = ''/'' \<or> HasSuffix q ''//'')"
proof (cases q rule: rev_cases)
  case Nil
  with assms show ?thesis by simp
next
  case (snoc ys y)
  show ?thesis
  proof (cases ys rule: rev_cases)
    case Nil
    with snoc show ?thesis by (auto simp: TrimSuffix_slash HasSuffix_def)
  next
    case (snoc zs z)
    with \<open>q = ys @ [y]\<close> have q: "q = (zs @ [z]) @ [y]" "q = zs @ [z, y]" by simp_all
    show ?thesis
      unfolding q(1) TrimSuffix_snoc
      by (simp add: HasSuffix_snoc1 HasSuffix_snoc2 del: append_assoc) (simp add: HasSuffix_snoc2)
  qed
qed

lemma HasSuffix_Cons2:
  assumes "s \<noteq> []"
  shows "HasSuffix (c # s) [d, e] \<longleftrightarrow> (s = [e] \<and> c = d) \<or> HasSuffix s [d, e]"
proof (cases s rule: rev_cases)
  case Nil
  with assms show ?thesis by simp
next
  case (snoc ys y)
  show ?thesis
  proof (cases ys rule: rev_cases)
    case Nil
    with snoc show ?thesis by (auto simp: HasSuffix_def)
  next
    case (snoc zs z)
    with \<open>s = ys @ [y]\<close> show ?thesis
      by (auto simp: HasSuffix_def)
  qed
qed

lemma strip1_trailing:
  assumes "p \<noteq> ''''" "p \<noteq> ''/''"
  shows "(strip1 p = '''' \<or> HasSuffix (strip1 p) ''/'') \<longleftrightarrow> HasSuffix p ''//''"
proof (cases p)
  case Nil
  with assms show ?thesis by simp
next
  case (Cons c s)
  show ?thesis
  proof (cases "c = CHR ''/''")
    case True
    with Cons assms have s: "s \<noteq> []" by auto
    have "HasSuffix p ''//'' \<longleftrightarrow> (s = ''/'' \<or> HasSuffix s ''//'')"
      using Cons True s HasSuffix_Cons2[of s c "CHR ''/''" "CHR ''/''"] by simp
    then show ?thesis using Cons True s TrimSuffix_trailing[of s]
      by (simp add: strip1_def TrimPrefix_slash)
  next
    case False
    with Cons have "p \<noteq> ''/''" by auto
    then show ?thesis using Cons False TrimSuffix_trailing[of p]
      by (simp add: strip1_def TrimPrefix_slash)
  qed
qed

lemma buildRootPath_empty_iff: "buildRootPath ps = [] \<longleftrightarrow> kept ps = []"
  by (simp add: buildRootPath_eq)

lemma buildRootPath_leading: "buildRootPath ps = [] \<or> HasPrefix (buildRootPath ps) ''/''"
  by (cases "kept ps") (simp_all add: buildRootPath_eq HasPrefix_def)

lemma kept_member: "k \<in> set (kept ps) \<Longrightarrow> k \<noteq> [] \<and> k \<noteq> ''/''"
  by (simp add: kept_def)

lemma buildRootPath_trailing:
  "HasSuffix (buildRootPath ps) ''/'' \<longleftrightarrow> kept ps \<noteq> [] \<and> HasSuffix (last (kept ps)) ''//''"
proof (cases "kept ps" rule: rev_cases)
  case Nil
  then show ?thesis by (simp add: buildRootPath_eq HasSuffix_def)
next
  case (snoc ks k)
  then have "k \<in> set (kept ps)" by simp
  then have k: "k \<noteq> []" "k \<noteq> ''/''" using kept_member by blast+
  have "buildRootPath ps = (concat (map (\<lambda>p. ''/'' @ strip1 p) ks) @ ''/'') @ strip1 k"
    by (simp add: buildRootPath_eq snoc)
  then have "HasSuffix (buildRootPath ps) ''/'' \<longleftrightarrow> (strip1 k = [] \<or> HasSuffix (strip1 k) ''/'')"
    by (cases "strip1 k" rule: rev_cases) (simp_all add: HasSuffix_single)
  then show ?thesis using strip1_trailing[OF k] snoc by simp
qed

lemma buildRootPath_Cons: "buildRootPath (p # ps) = buildRootPath [p] @ buildRootPath ps"
  using buildRootPath_append[of "[p]" ps] by simp

lemma buildRootPath_self:
  assumes "J = [] \<or> HasPrefix J ''/''"
  shows "buildRootPath [J] = J \<longleftrightarrow> \<not> HasSuffix J ''/''"
proof (cases J)
  case Nil
  then show ?thesis by (simp add: buildRootPath_eq kept_def HasSuffix_def)
next
  case (Cons c t)
  with assms have c: "c = CHR ''/''" by (simp add: HasPrefix_def)
  show ?thesis
  proof (cases "t = []")
    case True
    with Cons c show ?thesis by (simp add: buildRootPath_eq kept_def HasSuffix_def)
  next
    case False
    with Cons c have "buildRootPath [J] = CHR ''/'' # TrimSuffix t ''/''"
      by (simp add: buildRootPath_eq kept_def strip1_def TrimPrefix_slash)
    moreover have "TrimSuffix t ''/'' = t \<longleftrightarrow> last t \<noteq> CHR ''/''"
      using False by (cases t rule: rev_cases) (simp_all add: TrimSuffix_snoc)
    moreover have "HasSuffix J ''/'' \<longleftrightarrow> last t = CHR ''/''"
      using False Cons by (simp add: HasSuffix_single)
    ultimately show ?thesis using Cons c by simp
  qed
qed

lemma buildRootPath_rejoin_list:
  "buildRootPath (buildRootPath ps # qs) = buildRootPath (ps @ qs)
     \<longleftrightarrow> \<not> HasSuffix (buildRootPath ps) ''/''"
proof -
  have "buildRootPath (buildRootPath ps # qs) = buildRootPath [buildRootPath ps] @ buildRootPath qs"
    by (rule buildRootPath_Cons)
  moreover have "buildRootPath (ps @ qs) = buildRootPath ps @ buildRootPath qs"
    by (rule buildRootPath_append)
  ultimately have "buildRootPath (buildRootPath ps # qs) = buildRootPath (ps @ qs)
     \<longleftrightarrow> buildRootPath [buildRootPath ps] = buildRootPath ps" by simp
  then show ?thesis using buildRootPath_self[OF buildRootPath_leading[of ps]] by simp
qed

lemma last_kept_two:
  "kept [a, b] \<noteq> [] \<Longrightarrow> last (kept [a, b]) = a \<or> last (kept [a, b]) = b"
  by (auto simp: kept_def)

lemma strip1_both: "strip1 (''/'' @ s @ ''/'') = s"
  by (simp add: strip1_def TrimPrefix_slash TrimSuffix_slash)

lemma strip1_neither: "\<not> HasPrefix p ''/'' \<Longrightarrow> \<not> HasSuffix p ''/'' \<Longrightarrow> strip1 p = p"
  by (simp add: strip1_def TrimPrefix_def TrimSuffix_def)

lemma components_buildRootPath:
  "components (buildRootPath ps) = [] # concat (map (\<lambda>p. components (strip1 p)) (kept ps))"
proof -
  have "buildRootPath ps = [] @ concat (map (\<lambda>s. CHR ''/'' # s) (map strip1 (kept ps)))"
    by (simp add: buildRootPath_eq comp_def)
  then have "components (buildRootPath ps)
      = components [] @ concat (map components (map strip1 (kept ps)))"
    by (simp only: components_concat)
  then show ?thesis by (simp add: comp_def)
qed

lemma IndexAny_none: "set s \<inter> set chars = {} \<Longrightarrow> IndexAny s chars = - 1"
  by (induction s) auto

lemma IndexAny_first:
  "set pre \<inter> set chars = {} \<Longrightarrow> c \<in> set chars \<Longrightarrow>
     IndexAny (pre @ c # rest) chars = int (length pre)"
  by (induction pre) (auto simp: Let_def)

lemma fullPattern_method:
  assumes "rootPath m \<noteq> ''''" "set meth \<inter> set space_tab = {}" "c \<in> set space_tab"
  shows "fullPattern m (meth @ c # rest)
           = meth @ '' '' @ rootPath m @ dropWhile (\<lambda>x. x \<in> set space_tab) rest"
proof -
  have i: "IndexAny (meth @ c # rest) space_tab = int (length meth)"
    using assms(2,3) by (rule IndexAny_first)
  show ?thesis using assms(1,3)
    by (simp add: fullPattern_def i TrimLeft_def)
qed

lemma fullPattern_bare:
  assumes "rootPath m \<noteq> ''''" "set pattern \<inter> set space_tab = {}"
  shows "fullPattern m pattern = rootPath m @ pattern"
  using assms by (simp add: fullPattern_def IndexAny_none)

lemma buildRootPath_normalized:
  assumes "\<forall>q \<in> set paths. \<not> HasSuffix q ''//''"
  shows "normalized (buildRootPath paths)"
proof -
  have "\<not> HasSuffix (buildRootPath paths) ''/''"
  proof
    assume "HasSuffix (buildRootPath paths) ''/''"
    then have k: "kept paths \<noteq> []" and s: "HasSuffix (last (kept paths)) ''//''"
      by (simp_all add: buildRootPath_trailing)
    from k have "last (kept paths) \<in> set (kept paths)" by simp
    then have "last (kept paths) \<in> set paths" by (simp add: kept_def)
    with assms s show False by blast
  qed
  then show ?thesis using buildRootPath_leading[of paths] by (auto simp: normalized_def)
qed

lemma wrap_loop_foldr:
  "n \<le> length chain \<Longrightarrow> wrap_loop chain n out = foldr (\<lambda>m h. m h) (take n chain) out"
proof (induction n arbitrary: out)
  case 0
  then show ?case by simp
next
  case (Suc n)
  then have "take (Suc n) chain = take n chain @ [chain ! n]"
    by (simp add: take_Suc_conv_app_nth)
  with Suc show ?case by simp
qed

lemma wrap_foldr: "wrap r fn chain = foldr (\<lambda>m h. m h) (rchain r @ chain) fn"
  by (simp add: wrap_def wrap_loop_foldr)

lemma foldr_announce:
  "foldr (\<lambda>m h. m h) (map announce names) k w req = k (foldl Write w names) req"
  by (induction names arbitrary: w) (simp_all add: announce_def)

lemma chunks_Write: "chunks (underlying (Write w b)) = chunks (underlying w) @ [b]"
  by (cases w) (simp_all add: Write_def underlying_def response_Write_def)

lemma chunks_foldl_Write:
  "chunks (underlying (foldl Write w names)) = chunks (underlying w) @ names"
  by (induction names arbitrary: w) (simp_all add: chunks_Write)

lemma registered_since_Handle:
  "registered_since r (r\<lparr>mux := muxWrapper_Handle (mux r) p h\<rparr>)
     = (let full = fullPattern (mux r) p in
        if Contains full CHR ''-'' then [(full, h), (ReplaceAll full CHR ''-'' CHR ''_'', h)]
        else if Contains full CHR ''_'' then [(full, h), (ReplaceAll full CHR ''_'' CHR ''-'', h)]
        else [(full, h)])"
  by (simp add: registered_since_def muxWrapper_Handle_def ServeMux_Handle_def Let_def)

lemma handlers_registered_by_Handle:
  "set (map snd (registered_since r (r\<lparr>mux := muxWrapper_Handle (mux r) p h\<rparr>))) = {h}"
  by (simp add: registered_since_Handle Let_def)

lemma ServeMux_Handle_extends:
  "take (length (ServeMux m)) (ServeMux (muxWrapper_Handle m p h)) = ServeMux m"
  by (simp add: muxWrapper_Handle_def ServeMux_Handle_def Let_def)

lemma ServeHTTP_not_found:
  "notFoundHandler m = Some nf \<Longrightarrow> snd (resolve (ServeMux m) r) = '''' \<Longrightarrow>
     muxWrapper_ServeHTTP resolve m w r = nf (Intercepted (toStatusInterceptor w r)) r"
  by (simp add: muxWrapper_ServeHTTP_def)

lemma ServeHTTP_no_handler:
  "notFoundHandler m = None \<Longrightarrow>
     muxWrapper_ServeHTTP resolve m w r
       = muxWrapper_serve resolve m (Intercepted (toStatusInterceptor w r)) r"
  by (simp add: muxWrapper_ServeHTTP_def)

lemmas dispatch_defs =
  Get_def Post_def Any_def Router_handle_def Use_def SetHandler_def SetNotFoundHandler_def
  NewRouter_def newMuxWrapper_def buildRootPath_def muxWrapper_Handle_def ServeMux_Handle_def
  fullPattern_def Contains_def ReplaceAll_def Router_ServeHTTP_def muxWrapper_ServeHTTP_def
  muxWrapper_serve_def ServeMux_ServeHTTP_def literal_resolve_def NotFoundHandler_def
  custom_not_found_def set_header_def announce_def terminal_def SetHeader_def WriteHeader_def
  Write_def toStatusInterceptor_def statusInterceptor_WriteHeader_def response_WriteHeader_def
  response_Write_def Header_Set_def Header_Get_def underlying_def empty_response_def
  StatusNotFound_def StatusMovedPermanently_def StatusTemporaryRedirect_def wrap_def Let_def

lemma muxWrapper_Handle_registrations:
  "(Contains (fullPattern m pattern) CHR ''-'' \<longrightarrow>
      ServeMux (muxWrapper_Handle m pattern h)
        = ServeMux m @ [(fullPattern m pattern, h),
                        (ReplaceAll (fullPattern m pattern) CHR ''-'' CHR ''_'', h)])
   \<and> (\<not> Contains (fullPattern m pattern) CHR ''-'' \<and> Contains (fullPattern m pattern) CHR ''_'' \<longrightarrow>
      ServeMux (muxWrapper_Handle m pattern h)
        = ServeMux m @ [(fullPattern m pattern, h),
                        (ReplaceAll (fullPattern m pattern) CHR ''_'' CHR ''-'', h)])
   \<and> (\<not> Contains (fullPattern m pattern) CHR ''-'' \<and> \<not> Contains (fullPattern m pattern) CHR ''_'' \<longrightarrow>
      ServeMux (muxWrapper_Handle m pattern h) = ServeMux m @ [(fullPattern m pattern, h)])
   \<and> rootPath (muxWrapper_Handle m pattern h) = rootPath m
   \<and> httpHandler (muxWrapper_Handle m pattern h) = httpHandler m
   \<and> notFoundHandler (muxWrapper_Handle m pattern h) = notFoundHandler m"
  by (simp add: muxWrapper_Handle_def ServeMux_Handle_def Let_def)

lemma muxWrapper_Handle_checked_result:
  "muxWrapper_Handle_checked accepts m pattern h = Inr m' \<Longrightarrow> m' = muxWrapper_Handle m pattern h"
  by (auto simp: muxWrapper_Handle_checked_def muxWrapper_Handle_def ServeMux_Handle_checked_def
      Let_def split: if_splits sum.splits)

lemma muxWrapper_Handle_checked_accepted:
  assumes "accepts (ServeMux m) (fullPattern m pattern)"
    and "Contains (fullPattern m pattern) CHR ''-'' \<Longrightarrow>
           accepts (ServeMux m @ [(fullPattern m pattern, h)])
             (ReplaceAll (fullPattern m pattern) CHR ''-'' CHR ''_'')"
    and "\<not> Contains (fullPattern m pattern) CHR ''-'' \<Longrightarrow> Contains (fullPattern m pattern) CHR ''_'' \<Longrightarrow>
           accepts (ServeMux m @ [(fullPattern m pattern, h)])
             (ReplaceAll (fullPattern m pattern) CHR ''_'' CHR ''-'')"
  shows "muxWrapper_Handle_checked accepts m pattern h = Inr (muxWrapper_Handle m pattern h)"
  using assms
  by (simp add: muxWrapper_Handle_checked_def muxWrapper_Handle_def ServeMux_Handle_checked_def
      ServeMux_Handle_def Let_def)

lemma muxWrapper_serve_guarded_eq:
  "muxWrapper_serve_guarded resolve m w r = Inr (muxWrapper_serve resolve m w r)"
  by (cases "httpHandler m")
     (simp_all add: muxWrapper_serve_guarded_def muxWrapper_serve_def call_middleware_def)

lemma muxWrapper_ServeHTTP_guarded_eq:
  "muxWrapper_ServeHTTP_guarded resolve m w r = Inr (muxWrapper_ServeHTTP resolve m w r)"
  by (cases "notFoundHandler m")
     (simp_all add: muxWrapper_ServeHTTP_guarded_def muxWrapper_ServeHTTP_def
        muxWrapper_serve_guarded_eq call_handler_def Let_def)

section \<open>Verified properties\<close>

subsection \<open>Composition order of a route\<close>

text \<open>
  C1. The handler composed for a route is the router-chain middlewares, first added
  outermost, around the per-route middlewares in the order given, around the handler; it
  is what every registration of the route stores. Middlewares that announce themselves
  are heard in that order.
\<close>

theorem wrap_order:
  "wrap r fn chain = foldr (\<lambda>m h. m h) (rchain r @ chain) fn
   \<and> wrap r fn chain = foldr (\<lambda>m h. m h) (rchain r) (foldr (\<lambda>m h. m h) chain fn)
   \<and> wrap (Use r ms) fn chain = foldr (\<lambda>m h. m h) (rchain r @ ms @ chain) fn
   \<and> wrap (r\<lparr>rchain := [m1, m2]\<rparr>) fn [] = m1 (m2 fn)
   \<and> wrap (r\<lparr>rchain := [m1]\<rparr>) fn [m2] = m1 (m2 fn)
   \<and> chunks (underlying (wrap (r\<lparr>rchain := map announce rs\<rparr>) (terminal h)
                (map announce cs) w req))
       = chunks (underlying w) @ rs @ cs @ [h]
   \<and> set (map snd (registered_since r (Router_handle r meth path fn chain)))
       = {wrap r fn chain}
   \<and> set (map snd (registered_since r (Any r path fn chain))) = {wrap r fn chain}
   \<and> set (map snd (registered_since r (Mount r path fn chain))) = {wrap r fn chain}"
proof -
  have c1: "wrap r fn chain = foldr (\<lambda>m h. m h) (rchain r @ chain) fn" for r fn chain
    by (rule wrap_foldr)
  have c2: "wrap r fn chain = foldr (\<lambda>m h. m h) (rchain r) (foldr (\<lambda>m h. m h) chain fn)"
    by (simp add: c1)
  have c3: "wrap (r\<lparr>rchain := [m1, m2]\<rparr>) fn [] = m1 (m2 fn)"
    "wrap (r\<lparr>rchain := [m1]\<rparr>) fn [m2] = m1 (m2 fn)"
    "wrap (Use r ms) fn chain = foldr (\<lambda>m h. m h) (rchain r @ ms @ chain) fn"
    by (simp_all add: c1 Use_def)
  have "wrap (r\<lparr>rchain := map announce rs\<rparr>) (terminal h) (map announce cs) w req
      = terminal h (foldl Write w (rs @ cs)) req"
    using foldr_announce[of "rs @ cs" "terminal h" w req] by (simp add: c1)
  then have c4: "chunks (underlying (wrap (r\<lparr>rchain := map announce rs\<rparr>) (terminal h)
                (map announce cs) w req)) = chunks (underlying w) @ rs @ cs @ [h]"
    by (simp add: terminal_def chunks_Write chunks_foldl_Write)
  have c5: "set (map snd (registered_since r (Router_handle r meth path fn chain)))
       = {wrap r fn chain}"
    unfolding Router_handle_def by (rule handlers_registered_by_Handle)
  have c6: "set (map snd (registered_since r (Any r path fn chain))) = {wrap r fn chain}"
    unfolding Any_def by (rule handlers_registered_by_Handle)
  have c7: "set (map snd (registered_since r (Mount r path fn chain))) = {wrap r fn chain}"
    unfolding Mount_def Let_def by (rule handlers_registered_by_Handle)
  from c1 c2 c3 c4 c5 c6 c7 show ?thesis by blast
qed

theorem wrap_order_witness:
  "chunks (underlying (Router_ServeHTTP literal_resolve
      (Get (Use (NewRouter []) [announce ''router-middleware-1'', announce ''router-middleware-2''])
         ''/test'' (terminal ''handler'') [announce ''route-middleware''])
      (Plain empty_response) \<lparr>Method = ''GET'', Path = ''/test''\<rparr>))
     = [''router-middleware-1'', ''router-middleware-2'', ''route-middleware'', ''handler'']"
proof -
  let ?r = "Use (NewRouter []) [announce ''router-middleware-1'', announce ''router-middleware-2'']"
  let ?req = "\<lparr>Method = ''GET'', Path = ''/test''\<rparr>"
  let ?w = "Intercepted (toStatusInterceptor (Plain empty_response) ?req)"
  have r: "?r\<lparr>rchain := map announce [''router-middleware-1'', ''router-middleware-2'']\<rparr> = ?r"
    by (simp add: Use_def NewRouter_def)
  have d: "Router_ServeHTTP literal_resolve
      (Get ?r ''/test'' (terminal ''handler'') [announce ''route-middleware''])
      (Plain empty_response) ?req
     = wrap ?r (terminal ''handler'') (map announce [''route-middleware'']) ?w ?req"
    by (simp add: Get_def Router_handle_def Use_def NewRouter_def newMuxWrapper_def
        buildRootPath_def muxWrapper_Handle_def ServeMux_Handle_def fullPattern_def Contains_def
        Router_ServeHTTP_def muxWrapper_ServeHTTP_def muxWrapper_serve_def
        ServeMux_ServeHTTP_def literal_resolve_def Let_def)
  have w: "chunks (underlying ?w) = []"
    by (simp add: toStatusInterceptor_def underlying_def empty_response_def)
  note wo = wrap_order[where r = ?r and rs = "[''router-middleware-1'', ''router-middleware-2'']"
      and cs = "[''route-middleware'']" and h = "''handler''" and w = ?w and req = ?req,
      THEN conjunct2, THEN conjunct2, THEN conjunct2, THEN conjunct2, THEN conjunct2,
      THEN conjunct1]
  from wo have "chunks (underlying (wrap ?r (terminal ''handler'') (map announce [''route-middleware''])
          ?w ?req))
     = [''router-middleware-1'', ''router-middleware-2'', ''route-middleware'', ''handler'']"
    by (simp only: r w) simp
  with d show ?thesis by simp
qed

subsection \<open>The global wrapper and unmatched requests\<close>

text \<open>
  C2 (amended). With a not-found handler configured, a request that no pattern matches is
  answered the same whatever the global wrapper is: the wrapper is not invoked. With no
  not-found handler configured, a configured global wrapper is invoked with the
  dispatcher's resolve-and-serve step as its next handler, also for a request that no
  pattern matches.
\<close>

theorem global_wrapper_and_not_found:
  "(notFoundHandler m = Some nf \<and> snd (resolve (ServeMux m) r) = '''' \<longrightarrow>
      muxWrapper_ServeHTTP resolve (m\<lparr>httpHandler := g\<rparr>) w r
        = muxWrapper_ServeHTTP resolve (m\<lparr>httpHandler := None\<rparr>) w r)
   \<and> (notFoundHandler m = None \<and> httpHandler m = Some gw \<longrightarrow>
      muxWrapper_ServeHTTP resolve m w r
        = gw (ServeMux_ServeHTTP resolve (ServeMux m)) (Intercepted (toStatusInterceptor w r)) r)"
  by (simp add: muxWrapper_ServeHTTP_def muxWrapper_serve_def)

theorem global_wrapper_and_not_found_counterexample:
  "notFoundHandler (mux (Get (SetHandler (NewRouter []) (set_header ''X-Top-Level'' ''applied''))
      ''/exists'' (terminal ''exists'') [])) = None
   \<and> snd (literal_resolve
        (ServeMux (mux (Get (SetHandler (NewRouter []) (set_header ''X-Top-Level'' ''applied''))
           ''/exists'' (terminal ''exists'') [])))
        \<lparr>Method = ''GET'', Path = ''/nonexistent''\<rparr>) = ''''
   \<and> Header_Get (underlying (Router_ServeHTTP literal_resolve
        (Get (SetHandler (NewRouter []) (set_header ''X-Top-Level'' ''applied''))
           ''/exists'' (terminal ''exists'') [])
        (Plain empty_response) \<lparr>Method = ''GET'', Path = ''/nonexistent''\<rparr>)) ''X-Top-Level''
       = ''applied''
   \<and> codes (underlying (Router_ServeHTTP literal_resolve
        (Get (SetHandler (NewRouter []) (set_header ''X-Top-Level'' ''applied''))
           ''/exists'' (terminal ''exists'') [])
        (Plain empty_response) \<lparr>Method = ''GET'', Path = ''/nonexistent''\<rparr>)) = [404]
   \<and> Header_Get (underlying (Router_ServeHTTP literal_resolve
        (Get (NewRouter []) ''/exists'' (terminal ''exists'') [])
        (Plain empty_response) \<lparr>Method = ''GET'', Path = ''/nonexistent''\<rparr>)) ''X-Top-Level''
       = ''''"
  by (simp add: Get_def Router_handle_def SetHandler_def NewRouter_def newMuxWrapper_def
      buildRootPath_def muxWrapper_Handle_def ServeMux_Handle_def fullPattern_def Contains_def
      Router_ServeHTTP_def muxWrapper_ServeHTTP_def muxWrapper_serve_def ServeMux_ServeHTTP_def
      literal_resolve_def NotFoundHandler_def set_header_def SetHeader_def WriteHeader_def
      Write_def toStatusInterceptor_def statusInterceptor_WriteHeader_def
      response_WriteHeader_def response_Write_def Header_Set_def Header_Get_def underlying_def
      empty_response_def StatusNotFound_def StatusMovedPermanently_def Let_def)

theorem global_wrapper_and_not_found_witness:
  "notFoundHandler (mux (SetNotFoundHandler (NewRouter []) custom_not_found)) = Some custom_not_found
   \<and> snd (literal_resolve (ServeMux (mux (SetNotFoundHandler (NewRouter []) custom_not_found)))
        \<lparr>Method = ''GET'', Path = ''/nonexistent''\<rparr>) = ''''
   \<and> muxWrapper_ServeHTTP literal_resolve
        ((mux (SetNotFoundHandler (NewRouter []) custom_not_found))
           \<lparr>httpHandler := Some (set_header ''X-Top-Level'' ''applied'')\<rparr>)
        (Plain empty_response) \<lparr>Method = ''GET'', Path = ''/nonexistent''\<rparr>
     = muxWrapper_ServeHTTP literal_resolve
        ((mux (SetNotFoundHandler (NewRouter []) custom_not_found))\<lparr>httpHandler := None\<rparr>)
        (Plain empty_response) \<lparr>Method = ''GET'', Path = ''/nonexistent''\<rparr>
   \<and> notFoundHandler (mux (SetHandler (NewRouter []) (announce ''top-level''))) = None
   \<and> httpHandler (mux (SetHandler (NewRouter []) (announce ''top-level'')))
       = Some (announce ''top-level'')
   \<and> chunks (underlying (muxWrapper_ServeHTTP literal_resolve
        (mux (SetHandler (NewRouter []) (announce ''top-level'')))
        (Plain empty_response) \<lparr>Method = ''GET'', Path = ''/nonexistent''\<rparr>))
       = [''top-level'', ''404 page not found'']"
proof -
  let ?m = "mux (SetNotFoundHandler (NewRouter []) custom_not_found)"
  let ?n = "mux (SetHandler (NewRouter []) (announce ''top-level''))"
  let ?req = "\<lparr>Method = ''GET'', Path = ''/nonexistent''\<rparr>"
  have h1: "notFoundHandler ?m = Some custom_not_found \<and> snd (literal_resolve (ServeMux ?m) ?req) = ''''"
    by (simp add: SetNotFoundHandler_def NewRouter_def newMuxWrapper_def literal_resolve_def)
  have h2: "notFoundHandler ?n = None \<and> httpHandler ?n = Some (announce ''top-level'')"
    by (simp add: SetHandler_def NewRouter_def newMuxWrapper_def)
  have s: "ServeMux ?n = []"
    by (simp add: SetHandler_def NewRouter_def newMuxWrapper_def)
  from global_wrapper_and_not_found[where m = ?m and nf = custom_not_found
      and resolve = literal_resolve and r = ?req
      and g = "Some (set_header ''X-Top-Level'' ''applied'')" and w = "Plain empty_response"] h1
  have a: "muxWrapper_ServeHTTP literal_resolve
        (?m\<lparr>httpHandler := Some (set_header ''X-Top-Level'' ''applied'')\<rparr>)
        (Plain empty_response) ?req
     = muxWrapper_ServeHTTP literal_resolve (?m\<lparr>httpHandler := None\<rparr>) (Plain empty_response) ?req"
    by blast
  from global_wrapper_and_not_found[where m = ?n and resolve = literal_resolve and r = ?req
      and gw = "announce ''top-level''" and w = "Plain empty_response"] h2
  have "muxWrapper_ServeHTTP literal_resolve ?n (Plain empty_response) ?req
     = announce ''top-level'' (ServeMux_ServeHTTP literal_resolve (ServeMux ?n))
         (Intercepted (toStatusInterceptor (Plain empty_response) ?req)) ?req"
    by blast
  then have b: "chunks (underlying (muxWrapper_ServeHTTP literal_resolve ?n (Plain empty_response) ?req))
       = [''top-level'', ''404 page not found'']"
    by (simp add: s announce_def ServeMux_ServeHTTP_def literal_resolve_def NotFoundHandler_def
        Write_def WriteHeader_def toStatusInterceptor_def statusInterceptor_WriteHeader_def
        response_WriteHeader_def response_Write_def underlying_def empty_response_def
        StatusNotFound_def StatusMovedPermanently_def)
  from h1 h2 a b show ?thesis by blast
qed

subsection \<open>The redirect rewrite of the status interceptor\<close>

text \<open>
  C3. Asked to commit 301 while the Location header is the original path plus a slash,
  the interceptor commits 307 to the underlying writer and records 307 as its status; with
  any other Location it commits 301, and any other code is committed as it is. Headers,
  body and the remembered path are never touched.
\<close>

theorem statusInterceptor_WriteHeader_redirect:
  "(Header_Get (ResponseWriter wr) ''Location'' = originalPath wr @ ''/'' \<longrightarrow>
      codes (ResponseWriter (statusInterceptor_WriteHeader wr 301))
        = codes (ResponseWriter wr) @ [307]
      \<and> Status (statusInterceptor_WriteHeader wr 301) = 307)
   \<and> (Header_Get (ResponseWriter wr) ''Location'' \<noteq> originalPath wr @ ''/'' \<longrightarrow>
      codes (ResponseWriter (statusInterceptor_WriteHeader wr 301))
        = codes (ResponseWriter wr) @ [301]
      \<and> Status (statusInterceptor_WriteHeader wr 301) = Status wr)
   \<and> (code \<noteq> 301 \<longrightarrow>
      codes (ResponseWriter (statusInterceptor_WriteHeader wr code))
        = codes (ResponseWriter wr) @ [code]
      \<and> Status (statusInterceptor_WriteHeader wr code) = Status wr)
   \<and> headers (ResponseWriter (statusInterceptor_WriteHeader wr code)) = headers (ResponseWriter wr)
   \<and> chunks (ResponseWriter (statusInterceptor_WriteHeader wr code)) = chunks (ResponseWriter wr)
   \<and> originalPath (statusInterceptor_WriteHeader wr code) = originalPath wr"
  by (simp add: statusInterceptor_WriteHeader_def response_WriteHeader_def
      StatusMovedPermanently_def StatusTemporaryRedirect_def Let_def)

theorem statusInterceptor_WriteHeader_redirect_witness:
  "Header_Get (Header_Set empty_response ''Location'' ''/route/'') ''Location'' = ''/route'' @ ''/''
   \<and> codes (ResponseWriter (statusInterceptor_WriteHeader
         (toStatusInterceptor (Plain (Header_Set empty_response ''Location'' ''/route/''))
            \<lparr>Method = ''POST'', Path = ''/route''\<rparr>) 301)) = [307]
   \<and> Header_Get (Header_Set empty_response ''Location'' ''/other'') ''Location'' \<noteq> ''/route'' @ ''/''
   \<and> codes (ResponseWriter (statusInterceptor_WriteHeader
         (toStatusInterceptor (Plain (Header_Set empty_response ''Location'' ''/other''))
            \<lparr>Method = ''POST'', Path = ''/route''\<rparr>) 301)) = [301]
   \<and> (404::int) \<noteq> 301
   \<and> codes (ResponseWriter (statusInterceptor_WriteHeader
         (toStatusInterceptor (Plain (Header_Set empty_response ''Location'' ''/route/''))
            \<lparr>Method = ''POST'', Path = ''/route''\<rparr>) 404)) = [404]"
proof -
  let ?req = "\<lparr>Method = ''POST'', Path = ''/route''\<rparr>"
  let ?a = "toStatusInterceptor (Plain (Header_Set empty_response ''Location'' ''/route/'')) ?req"
  let ?b = "toStatusInterceptor (Plain (Header_Set empty_response ''Location'' ''/other'')) ?req"
  have ha: "Header_Get (ResponseWriter ?a) ''Location'' = originalPath ?a @ ''/''"
    and hb: "Header_Get (ResponseWriter ?b) ''Location'' \<noteq> originalPath ?b @ ''/''"
    and e: "codes (ResponseWriter ?a) = []" "codes (ResponseWriter ?b) = []"
    by (simp_all add: toStatusInterceptor_def Header_Get_def Header_Set_def empty_response_def)
  have g: "Header_Get (Header_Set empty_response ''Location'' ''/route/'') ''Location'' = ''/route'' @ ''/''"
    "Header_Get (Header_Set empty_response ''Location'' ''/other'') ''Location'' \<noteq> ''/route'' @ ''/''"
    by (simp_all add: Header_Get_def Header_Set_def empty_response_def)
  from statusInterceptor_WriteHeader_redirect[of ?a 404] ha e
  have a: "codes (ResponseWriter (statusInterceptor_WriteHeader ?a 301)) = [307]"
    "codes (ResponseWriter (statusInterceptor_WriteHeader ?a 404)) = [404]" by simp_all
  from statusInterceptor_WriteHeader_redirect[of ?b 404] hb e
  have b: "codes (ResponseWriter (statusInterceptor_WriteHeader ?b 301)) = [301]" by simp
  from a b g show ?thesis by simp
qed

subsection \<open>Chain snapshot at registration\<close>

text \<open>
  C4. Appending to the chain after a route is registered leaves the registrations as
  they are: the earlier route keeps the handler composed from the chain as it was, and a
  route registered afterwards is composed from the extended chain.
\<close>

theorem use_after_registration:
  "ServeMux (mux (Use (Router_handle r meth path fn chain) ms))
     = ServeMux (mux (Router_handle r meth path fn chain))
   \<and> Router_ServeHTTP resolve (Use (Router_handle r meth path fn chain) ms) w req
       = Router_ServeHTTP resolve (Router_handle r meth path fn chain) w req
   \<and> set (map snd (registered_since r (Use (Router_handle r meth path fn chain) ms)))
       = {foldr (\<lambda>m h. m h) (rchain r @ chain) fn}
   \<and> rchain (Use (Router_handle r meth path fn chain) ms) = rchain r @ ms
   \<and> set (map snd (registered_since (Use (Router_handle r meth path fn chain) ms)
         (Router_handle (Use (Router_handle r meth path fn chain) ms) meth' path' fn' chain')))
       = {foldr (\<lambda>m h. m h) (rchain r @ ms @ chain') fn'}
   \<and> take (length (ServeMux (mux (Router_handle r meth path fn chain))))
        (ServeMux (mux (Router_handle (Use (Router_handle r meth path fn chain) ms)
           meth' path' fn' chain')))
       = ServeMux (mux (Router_handle r meth path fn chain))"
proof -
  define r1 where "r1 = Router_handle r meth path fn chain"
  define r2 where "r2 = Use r1 ms"
  have m2: "mux r2 = mux r1" and ch2: "rchain r2 = rchain r @ ms"
    by (simp_all add: r2_def r1_def Use_def Router_handle_def)
  have c1: "ServeMux (mux r2) = ServeMux (mux r1)"
    "Router_ServeHTTP resolve r2 w req = Router_ServeHTTP resolve r1 w req"
    by (simp_all add: m2 Router_ServeHTTP_def)
  have "registered_since r r2 = registered_since r r1"
    by (simp add: registered_since_def m2)
  then have c2: "set (map snd (registered_since r r2)) = {foldr (\<lambda>m h. m h) (rchain r @ chain) fn}"
    unfolding r1_def Router_handle_def
    by (simp only: handlers_registered_by_Handle wrap_foldr)
  have c4: "set (map snd (registered_since r2 (Router_handle r2 meth' path' fn' chain')))
       = {foldr (\<lambda>m h. m h) (rchain r @ ms @ chain') fn'}"
    unfolding Router_handle_def
    by (simp only: handlers_registered_by_Handle wrap_foldr ch2 append_assoc)
  have c5: "take (length (ServeMux (mux r1)))
        (ServeMux (mux (Router_handle r2 meth' path' fn' chain'))) = ServeMux (mux r1)"
    using ServeMux_Handle_extends[of "mux r2"] by (simp add: Router_handle_def m2)
  from c1 c2 ch2 c4 c5 show ?thesis
    unfolding r2_def r1_def by blast
qed

theorem use_after_registration_witness:
  "chunks (underlying (Router_ServeHTTP literal_resolve
      (Get (Use (Get (NewRouter [announce ''m1'']) ''/a'' (terminal ''a'') [])
              [announce ''m3''])
         ''/b'' (terminal ''b'') [])
      (Plain empty_response) \<lparr>Method = ''GET'', Path = ''/a''\<rparr>)) = [''m1'', ''a'']
   \<and> chunks (underlying (Router_ServeHTTP literal_resolve
      (Get (Use (Get (NewRouter [announce ''m1'']) ''/a'' (terminal ''a'') [])
              [announce ''m3''])
         ''/b'' (terminal ''b'') [])
      (Plain empty_response) \<lparr>Method = ''GET'', Path = ''/b''\<rparr>)) = [''m1'', ''m3'', ''b'']"
proof -
  let ?r = "NewRouter [announce ''m1'']"
  let ?r1 = "Get ?r ''/a'' (terminal ''a'') []"
  let ?r2 = "Use ?r1 [announce ''m3'']"
  let ?r3 = "Get ?r2 ''/b'' (terminal ''b'') []"
  let ?wa = "Intercepted (toStatusInterceptor (Plain empty_response) \<lparr>Method = ''GET'', Path = ''/a''\<rparr>)"
  let ?wb = "Intercepted (toStatusInterceptor (Plain empty_response) \<lparr>Method = ''GET'', Path = ''/b''\<rparr>)"
  note u = use_after_registration[where r = ?r and meth = "''GET''" and path = "''/a''"
      and fn = "terminal ''a''" and chain = "[]" and ms = "[announce ''m3'']"
      and meth' = "''GET''" and path' = "''/b''" and fn' = "terminal ''b''" and chain' = "[]"]
  have regs: "ServeMux (mux ?r3) = [(''GET /a'', wrap ?r (terminal ''a'') []),
      (''GET /b'', wrap ?r2 (terminal ''b'') [])]"
    by (simp add: Get_def Router_handle_def Use_def NewRouter_def newMuxWrapper_def
        buildRootPath_def muxWrapper_Handle_def ServeMux_Handle_def fullPattern_def Contains_def
        Let_def)
  from u have "set (map snd (registered_since ?r ?r2)) = {foldr (\<lambda>m h. m h) (rchain ?r @ []) (terminal ''a'')}"
    and "set (map snd (registered_since ?r2 ?r3))
          = {foldr (\<lambda>m h. m h) (rchain ?r @ [announce ''m3''] @ []) (terminal ''b'')}"
    unfolding Get_def by blast+
  then have wa: "wrap ?r (terminal ''a'') [] = announce ''m1'' (terminal ''a'')"
    and wb: "wrap ?r2 (terminal ''b'') [] = announce ''m1'' (announce ''m3'' (terminal ''b''))"
    by (simp_all add: registered_since_def regs Get_def Router_handle_def Use_def NewRouter_def
        newMuxWrapper_def buildRootPath_def muxWrapper_Handle_def ServeMux_Handle_def
        fullPattern_def Contains_def Let_def)
  have "Router_ServeHTTP literal_resolve ?r3 (Plain empty_response) \<lparr>Method = ''GET'', Path = ''/a''\<rparr>
      = wrap ?r (terminal ''a'') [] ?wa \<lparr>Method = ''GET'', Path = ''/a''\<rparr>"
    and "Router_ServeHTTP literal_resolve ?r3 (Plain empty_response) \<lparr>Method = ''GET'', Path = ''/b''\<rparr>
      = wrap ?r2 (terminal ''b'') [] ?wb \<lparr>Method = ''GET'', Path = ''/b''\<rparr>"
    unfolding Router_ServeHTTP_def
    by (simp_all add: regs muxWrapper_ServeHTTP_def muxWrapper_serve_def ServeMux_ServeHTTP_def
        literal_resolve_def Get_def Router_handle_def Use_def NewRouter_def newMuxWrapper_def
        muxWrapper_Handle_def ServeMux_Handle_def fullPattern_def buildRootPath_def Contains_def
        Let_def)
  then show ?thesis
    unfolding wa wb
    by (simp add: announce_def terminal_def Write_def toStatusInterceptor_def response_Write_def
        underlying_def empty_response_def)
qed

subsection \<open>Resolution of unmatched requests\<close>

text \<open>
  C5 (amended). A request that no pattern matches is answered by the configured
  not-found handler, on the intercepted writer and at once: neither the global wrapper
  nor any registered handler takes part. With no not-found handler and no global wrapper
  it is answered by the dispatcher's default not-found response. With no not-found
  handler and a global wrapper it is answered by the wrapper, whose next handler gives
  the default not-found response: that response is produced when the wrapper calls next.
  Dispatch calls neither optional field while it is nil, so it raises no fault of its own.
\<close>

theorem not_found_resolution:
  "(notFoundHandler m = Some nf \<and> snd (resolve (ServeMux m) r) = '''' \<longrightarrow>
      muxWrapper_ServeHTTP resolve m w r = nf (Intercepted (toStatusInterceptor w r)) r)
   \<and> (notFoundHandler m = None \<and> httpHandler m = None \<and> resolve (ServeMux m) r = (dflt, '''') \<longrightarrow>
      muxWrapper_ServeHTTP resolve m w r = dflt (Intercepted (toStatusInterceptor w r)) r)
   \<and> (notFoundHandler m = None \<and> httpHandler m = Some g \<and> resolve (ServeMux m) r = (dflt, '''') \<longrightarrow>
      muxWrapper_ServeHTTP resolve m w r
        = g (ServeMux_ServeHTTP resolve (ServeMux m)) (Intercepted (toStatusInterceptor w r)) r
      \<and> (\<forall>w'. ServeMux_ServeHTTP resolve (ServeMux m) w' r = dflt w' r))
   \<and> (notFoundHandler m = None \<and> httpHandler m = Some g \<and> resolve (ServeMux m) r = (dflt, '''')
        \<and> (\<forall>next. g next (Intercepted (toStatusInterceptor w r)) r
               = next (pre (Intercepted (toStatusInterceptor w r))) r) \<longrightarrow>
      muxWrapper_ServeHTTP resolve m w r = dflt (pre (Intercepted (toStatusInterceptor w r))) r)
   \<and> muxWrapper_ServeHTTP_guarded resolve m w r = Inr (muxWrapper_ServeHTTP resolve m w r)"
proof -
  let ?w = "Intercepted (toStatusInterceptor w r)"
  have c1: "notFoundHandler m = Some nf \<and> snd (resolve (ServeMux m) r) = '''' \<longrightarrow>
      muxWrapper_ServeHTTP resolve m w r = nf ?w r"
    by (simp add: muxWrapper_ServeHTTP_def)
  have c2: "notFoundHandler m = None \<and> httpHandler m = None \<and> resolve (ServeMux m) r = (dflt, '''') \<longrightarrow>
      muxWrapper_ServeHTTP resolve m w r = dflt ?w r"
    by (simp add: muxWrapper_ServeHTTP_def muxWrapper_serve_def ServeMux_ServeHTTP_def)
  have c3: "notFoundHandler m = None \<and> httpHandler m = Some g \<and> resolve (ServeMux m) r = (dflt, '''') \<longrightarrow>
      muxWrapper_ServeHTTP resolve m w r = g (ServeMux_ServeHTTP resolve (ServeMux m)) ?w r
      \<and> (\<forall>w'. ServeMux_ServeHTTP resolve (ServeMux m) w' r = dflt w' r)"
    by (simp add: muxWrapper_ServeHTTP_def muxWrapper_serve_def ServeMux_ServeHTTP_def)
  have c4: "notFoundHandler m = None \<and> httpHandler m = Some g \<and> resolve (ServeMux m) r = (dflt, '''')
        \<and> (\<forall>next. g next ?w r = next (pre ?w) r) \<longrightarrow>
      muxWrapper_ServeHTTP resolve m w r = dflt (pre ?w) r"
    by (simp add: muxWrapper_ServeHTTP_def muxWrapper_serve_def ServeMux_ServeHTTP_def)
  have c5: "muxWrapper_ServeHTTP_guarded resolve m w r = Inr (muxWrapper_ServeHTTP resolve m w r)"
    by (rule muxWrapper_ServeHTTP_guarded_eq)
  from c1 c2 c3 c4 c5 show ?thesis by blast
qed

theorem not_found_resolution_counterexample:
  "notFoundHandler (mux (Get (SetHandler (NewRouter []) (blocking (\<lambda>r. True)))
      ''/test'' (terminal ''allowed'') [])) = None
   \<and> literal_resolve
        (ServeMux (mux (Get (SetHandler (NewRouter []) (blocking (\<lambda>r. True)))
           ''/test'' (terminal ''allowed'') [])))
        \<lparr>Method = ''GET'', Path = ''/nonexistent''\<rparr> = (NotFoundHandler, '''')
   \<and> underlying (Router_ServeHTTP literal_resolve
        (Get (SetHandler (NewRouter []) (blocking (\<lambda>r. True)))
           ''/test'' (terminal ''allowed'') [])
        (Plain empty_response) \<lparr>Method = ''GET'', Path = ''/nonexistent''\<rparr>)
       = \<lparr>headers = [], codes = [403], chunks = [''blocked'']\<rparr>
   \<and> underlying (NotFoundHandler
        (Intercepted (toStatusInterceptor (Plain empty_response)
           \<lparr>Method = ''GET'', Path = ''/nonexistent''\<rparr>))
        \<lparr>Method = ''GET'', Path = ''/nonexistent''\<rparr>)
       = \<lparr>headers = [], codes = [404], chunks = [''404 page not found'']\<rparr>"
  by (simp add: dispatch_defs blocking_def StatusForbidden_def)

theorem not_found_resolution_witness:
  "notFoundHandler (mux (SetNotFoundHandler (SetHandler (Get (NewRouter [announce ''m1''])
        ''/exists'' (terminal ''exists'') [announce ''m2''])
        (set_header ''X-Top-Level'' ''applied'')) custom_not_found)) = Some custom_not_found
   \<and> snd (literal_resolve (ServeMux (mux (SetNotFoundHandler (SetHandler
        (Get (NewRouter [announce ''m1'']) ''/exists'' (terminal ''exists'') [announce ''m2''])
        (set_header ''X-Top-Level'' ''applied'')) custom_not_found)))
        \<lparr>Method = ''GET'', Path = ''/nonexistent''\<rparr>) = ''''
   \<and> underlying (Router_ServeHTTP literal_resolve
        (SetNotFoundHandler (SetHandler
          (Get (NewRouter [announce ''m1'']) ''/exists'' (terminal ''exists'') [announce ''m2''])
          (set_header ''X-Top-Level'' ''applied'')) custom_not_found)
        (Plain empty_response) \<lparr>Method = ''GET'', Path = ''/nonexistent''\<rparr>)
       = \<lparr>headers = [(''X-Not-Found'', ''custom'')], codes = [404],
          chunks = [''custom not found'']\<rparr>
   \<and> notFoundHandler (mux (Get (NewRouter [announce ''m1''])
        ''/exists'' (terminal ''exists'') [announce ''m2''])) = None
   \<and> httpHandler (mux (Get (NewRouter [announce ''m1''])
        ''/exists'' (terminal ''exists'') [announce ''m2''])) = None
   \<and> literal_resolve (ServeMux (mux (Get (NewRouter [announce ''m1''])
        ''/exists'' (terminal ''exists'') [announce ''m2''])))
        \<lparr>Method = ''GET'', Path = ''/nonexistent''\<rparr> = (NotFoundHandler, '''')
   \<and> underlying (Router_ServeHTTP literal_resolve
        (Get (NewRouter [announce ''m1'']) ''/exists'' (terminal ''exists'') [announce ''m2''])
        (Plain empty_response) \<lparr>Method = ''GET'', Path = ''/nonexistent''\<rparr>)
       = \<lparr>headers = [], codes = [404], chunks = [''404 page not found'']\<rparr>
   \<and> notFoundHandler (mux (SetHandler (Get (NewRouter [announce ''m1''])
        ''/exists'' (terminal ''exists'') [announce ''m2'']) (announce ''top-level''))) = None
   \<and> httpHandler (mux (SetHandler (Get (NewRouter [announce ''m1''])
        ''/exists'' (terminal ''exists'') [announce ''m2'']) (announce ''top-level'')))
       = Some (announce ''top-level'')
   \<and> literal_resolve (ServeMux (mux (SetHandler (Get (NewRouter [announce ''m1''])
        ''/exists'' (terminal ''exists'') [announce ''m2'']) (announce ''top-level''))))
        \<lparr>Method = ''GET'', Path = ''/nonexistent''\<rparr> = (NotFoundHandler, '''')
   \<and> underlying (Router_ServeHTTP literal_resolve
        (SetHandler (Get (NewRouter [announce ''m1''])
           ''/exists'' (terminal ''exists'') [announce ''m2'']) (announce ''top-level''))
        (Plain empty_response) \<lparr>Method = ''GET'', Path = ''/nonexistent''\<rparr>)
       = \<lparr>headers = [], codes = [404], chunks = [''top-level'', ''404 page not found'']\<rparr>"
proof -
  let ?r0 = "Get (NewRouter [announce ''m1'']) ''/exists'' (terminal ''exists'') [announce ''m2'']"
  let ?r1 = "SetNotFoundHandler (SetHandler ?r0 (set_header ''X-Top-Level'' ''applied''))
               custom_not_found"
  let ?r2 = "SetHandler ?r0 (announce ''top-level'')"
  let ?req = "\<lparr>Method = ''GET'', Path = ''/nonexistent''\<rparr>"
  let ?w = "Intercepted (toStatusInterceptor (Plain empty_response) ?req)"
  have h1: "notFoundHandler (mux ?r1) = Some custom_not_found
      \<and> snd (literal_resolve (ServeMux (mux ?r1)) ?req) = ''''"
    by (simp add: dispatch_defs)
  have h0: "notFoundHandler (mux ?r0) = None \<and> httpHandler (mux ?r0) = None
      \<and> literal_resolve (ServeMux (mux ?r0)) ?req = (NotFoundHandler, '''')"
    by (simp add: dispatch_defs)
  have h2: "notFoundHandler (mux ?r2) = None
      \<and> httpHandler (mux ?r2) = Some (announce ''top-level'')
      \<and> literal_resolve (ServeMux (mux ?r2)) ?req = (NotFoundHandler, '''')"
    by (simp add: dispatch_defs)
  have p: "\<forall>next. announce ''top-level'' next ?w ?req = next (Write ?w ''top-level'') ?req"
    by (simp add: announce_def)
  from not_found_resolution[where m = "mux ?r1" and nf = custom_not_found
      and resolve = literal_resolve and r = ?req and w = "Plain empty_response"] h1
  have "Router_ServeHTTP literal_resolve ?r1 (Plain empty_response) ?req = custom_not_found ?w ?req"
    unfolding Router_ServeHTTP_def by blast
  then have a: "underlying (Router_ServeHTTP literal_resolve ?r1 (Plain empty_response) ?req)
       = \<lparr>headers = [(''X-Not-Found'', ''custom'')], codes = [404],
          chunks = [''custom not found'']\<rparr>"
    by (simp add: custom_not_found_def SetHeader_def WriteHeader_def Write_def
        toStatusInterceptor_def statusInterceptor_WriteHeader_def response_WriteHeader_def
        response_Write_def Header_Set_def underlying_def empty_response_def StatusNotFound_def
        StatusMovedPermanently_def)
  from not_found_resolution[where m = "mux ?r0" and resolve = literal_resolve and r = ?req
      and w = "Plain empty_response" and dflt = NotFoundHandler] h0
  have "Router_ServeHTTP literal_resolve ?r0 (Plain empty_response) ?req = NotFoundHandler ?w ?req"
    unfolding Router_ServeHTTP_def by blast
  then have b: "underlying (Router_ServeHTTP literal_resolve ?r0 (Plain empty_response) ?req)
       = \<lparr>headers = [], codes = [404], chunks = [''404 page not found'']\<rparr>"
    by (simp add: NotFoundHandler_def WriteHeader_def Write_def
        toStatusInterceptor_def statusInterceptor_WriteHeader_def response_WriteHeader_def
        response_Write_def underlying_def empty_response_def StatusNotFound_def
        StatusMovedPermanently_def)
  from not_found_resolution[where m = "mux ?r2" and resolve = literal_resolve and r = ?req
      and w = "Plain empty_response" and g = "announce ''top-level''" and dflt = NotFoundHandler
      and pre = "\<lambda>w. Write w ''top-level''"] h2 p
  have "Router_ServeHTTP literal_resolve ?r2 (Plain empty_response) ?req
      = NotFoundHandler (Write ?w ''top-level'') ?req"
    unfolding Router_ServeHTTP_def by blast
  then have c: "underlying (Router_ServeHTTP literal_resolve ?r2 (Plain empty_response) ?req)
       = \<lparr>headers = [], codes = [404], chunks = [''top-level'', ''404 page not found'']\<rparr>"
    by (simp add: NotFoundHandler_def WriteHeader_def Write_def
        toStatusInterceptor_def statusInterceptor_WriteHeader_def response_WriteHeader_def
        response_Write_def underlying_def empty_response_def StatusNotFound_def
        StatusMovedPermanently_def)
  from h1 h0 h2 a b c show ?thesis by blast
qed

subsection \<open>Joining path segments\<close>

text \<open>
  C6 (amended). \<open>buildRootPath\<close> skips the segments that are empty or a bare slash and
  appends, for each other segment, a slash and the segment without one leading and one
  trailing slash; with nothing kept the result is the empty string. The components of
  the result are those of the stripped segments, so it has an empty component exactly
  when a kept segment still has one after stripping.
\<close>

theorem buildRootPath_join:
  "buildRootPath paths = concat (map (\<lambda>p. ''/'' @ strip1 p) (kept paths))
   \<and> strip1 (''/'' @ s @ ''/'') = s
   \<and> (\<not> HasPrefix p ''/'' \<and> \<not> HasSuffix p ''/'' \<longrightarrow> strip1 p = p)
   \<and> (kept paths = [] \<longrightarrow> buildRootPath paths = '''')
   \<and> components (buildRootPath paths)
       = [] # concat (map (\<lambda>p. components (strip1 p)) (kept paths))
   \<and> ([] \<in> set (tl (components (buildRootPath paths))))
       = (\<exists>p \<in> set (kept paths). [] \<in> set (components (strip1 p)))
   \<and> buildRootPath [] = ''''
   \<and> buildRootPath [''api'', ''v1'', ''users''] = ''/api/v1/users''
   \<and> buildRootPath [''/api/'', ''/v1/'', ''/users/''] = ''/api/v1/users''
   \<and> buildRootPath [''api/'', ''v1/'', ''users/''] = ''/api/v1/users''"
proof -
  have ex: "buildRootPath [] = ''''"
    "buildRootPath [''api'', ''v1'', ''users''] = ''/api/v1/users''"
    "buildRootPath [''/api/'', ''/v1/'', ''/users/''] = ''/api/v1/users''"
    "buildRootPath [''api/'', ''v1/'', ''users/''] = ''/api/v1/users''"
    by (simp_all add: buildRootPath_def TrimPrefix_def TrimSuffix_def HasPrefix_def HasSuffix_def)
  have c1: "buildRootPath paths = concat (map (\<lambda>p. ''/'' @ strip1 p) (kept paths))"
    by (rule buildRootPath_eq)
  have c2: "strip1 (''/'' @ s @ ''/'') = s"
    by (rule strip1_both)
  have c3: "\<not> HasPrefix p ''/'' \<and> \<not> HasSuffix p ''/'' \<longrightarrow> strip1 p = p"
    using strip1_neither[of p] by blast
  have c4: "kept paths = [] \<longrightarrow> buildRootPath paths = []"
    by (simp add: buildRootPath_empty_iff)
  have c5: "components (buildRootPath paths)
       = [] # concat (map (\<lambda>p. components (strip1 p)) (kept paths))"
    by (rule components_buildRootPath)
  have c6: "([] \<in> set (tl (components (buildRootPath paths))))
       = (\<exists>p \<in> set (kept paths). [] \<in> set (components (strip1 p)))"
    by (simp add: c5)
  from c1 c2 c3 c4 c5 c6 ex show ?thesis by blast
qed

theorem buildRootPath_join_counterexample:
  "''//'' \<noteq> '''' \<and> ''//'' \<noteq> ''/'' \<and> buildRootPath [''//''] = ''/''
   \<and> components (buildRootPath [''//'']) = ['''', '''']
   \<and> buildRootPath [''api'', ''//'', ''users''] = ''/api//users''
   \<and> components (buildRootPath [''api'', ''//'', ''users'']) = ['''', ''api'', '''', ''users'']"
  by (simp add: buildRootPath_def TrimPrefix_def TrimSuffix_def HasPrefix_def HasSuffix_def)

theorem buildRootPath_join_witness:
  "kept ['''', ''/'', ''''] = [] \<and> buildRootPath ['''', ''/'', ''''] = ''''
   \<and> \<not> HasPrefix ''api'' ''/'' \<and> \<not> HasSuffix ''api'' ''/'' \<and> strip1 ''api'' = ''api''
   \<and> strip1 ''/v1/'' = ''v1''"
proof -
  have h1: "kept ['''', ''/'', ''''] = []" by (simp add: kept_def)
  have h2: "\<not> HasPrefix ''api'' ''/'' \<and> \<not> HasSuffix ''api'' ''/''"
    by (simp add: HasPrefix_def HasSuffix_def)
  from buildRootPath_join[of "['''', ''/'', '''']" "''v1''" "''api''"] h1 h2
  show ?thesis by simp
qed

subsection \<open>Prefixing a pattern\<close>

text \<open>
  C7. \<open>fullPattern\<close> returns the pattern unchanged when the root path is empty. With a
  non-empty root path, a pattern whose first space or tab follows \<open>meth\<close> becomes
  \<open>meth\<close>, one space, the root path, and what follows once its leading spaces and tabs
  are dropped; a pattern without space or tab gets the root path in front.
\<close>

theorem fullPattern_prefixes:
  "(rootPath m = '''' \<longrightarrow> fullPattern m pattern = pattern)
   \<and> (rootPath m \<noteq> '''' \<and> (\<forall>x \<in> set meth. x \<noteq> CHR '' '' \<and> x \<noteq> CHR 0x09)
         \<and> (c = CHR '' '' \<or> c = CHR 0x09)
       \<longrightarrow> fullPattern m (meth @ c # rest)
           = meth @ '' '' @ rootPath m
               @ dropWhile (\<lambda>x. x = CHR '' '' \<or> x = CHR 0x09) (c # rest))
   \<and> (rootPath m \<noteq> '''' \<and> (\<forall>x \<in> set pattern. x \<noteq> CHR '' '' \<and> x \<noteq> CHR 0x09)
       \<longrightarrow> fullPattern m pattern = rootPath m @ pattern)"
proof -
  have st: "set space_tab = {CHR '' '', CHR 0x09}"
    by (auto simp: space_tab_def)
  have c1: "rootPath m = '''' \<longrightarrow> fullPattern m pattern = pattern"
    by (simp add: fullPattern_def)
  have c2: "fullPattern m (meth @ c # rest)
           = meth @ '' '' @ rootPath m
               @ dropWhile (\<lambda>x. x = CHR '' '' \<or> x = CHR 0x09) (c # rest)"
    if "rootPath m \<noteq> ''''" "\<forall>x \<in> set meth. x \<noteq> CHR '' '' \<and> x \<noteq> CHR 0x09"
       "c = CHR '' '' \<or> c = CHR 0x09"
  proof -
    have "set meth \<inter> set space_tab = {}" using that(2) st by auto
    moreover have "c \<in> set space_tab" using that(3) st by auto
    ultimately show ?thesis using fullPattern_method[OF that(1), of meth c rest] st that(3)
      by auto
  qed
  have c3: "fullPattern m pattern = rootPath m @ pattern"
    if "rootPath m \<noteq> ''''" "\<forall>x \<in> set pattern. x \<noteq> CHR '' '' \<and> x \<noteq> CHR 0x09"
  proof -
    have "set pattern \<inter> set space_tab = {}" using that(2) st by auto
    then show ?thesis using fullPattern_bare[OF that(1)] by simp
  qed
  from c1 c2 c3 show ?thesis by blast
qed

theorem fullPattern_prefixes_witness:
  "fullPattern (newMuxWrapper [''api'']) (''GET'' @ CHR 0x09 # ''/users'') = ''GET /api/users''
   \<and> fullPattern (newMuxWrapper [''api'']) ''GET   /users'' = ''GET /api/users''
   \<and> fullPattern (newMuxWrapper [''api'']) ''/users'' = ''/api/users''
   \<and> fullPattern (newMuxWrapper []) ''GET /users'' = ''GET /users''"
proof -
  have r: "rootPath (newMuxWrapper [''api'']) = ''/api''" "rootPath (newMuxWrapper []) = ''''"
    by (simp_all add: newMuxWrapper_def buildRootPath_def TrimPrefix_def TrimSuffix_def
        HasPrefix_def HasSuffix_def)
  have a: "fullPattern (newMuxWrapper [''api'']) (''GET'' @ CHR 0x09 # ''/users'') = ''GET /api/users''"
    using fullPattern_prefixes[of "newMuxWrapper [''api'']" _ "''GET''" "CHR 0x09" "''/users''"] r
    by simp
  have b: "fullPattern (newMuxWrapper [''api'']) (''GET'' @ CHR '' '' # ''  /users'') = ''GET /api/users''"
    using fullPattern_prefixes[of "newMuxWrapper [''api'']" _ "''GET''" "CHR '' ''" "''  /users''"] r
    by simp
  have c: "fullPattern (newMuxWrapper [''api'']) ''/users'' = ''/api/users''"
    using fullPattern_prefixes[of "newMuxWrapper [''api'']" "''/users''" "[]" "CHR '' ''" "[]"] r
    by simp
  have d: "fullPattern (newMuxWrapper []) ''GET /users'' = ''GET /users''"
    using fullPattern_prefixes[of "newMuxWrapper []" "''GET /users''" "[]" "CHR '' ''" "[]"] r
    by simp
  from a b c d show ?thesis by simp
qed

subsection \<open>Hyphen and underscore aliases\<close>

text \<open>
  C8. The alias is meant to be registered for every pattern with a hyphen or an
  underscore. The substitution runs over the whole pattern, wildcard names included:
  for the route \<open>GET /users/{user_id}\<close> the dispatcher takes the pattern itself and
  refuses the alias \<open>GET /users/{user-id}\<close>, so the registration panics and no alias
  resolves. Registering both spellings of a path by two calls panics as well, on the
  spelling that the first call has registered as its alias.
\<close>

theorem alias_registration_panics:
  "ServeMux_Handle_checked standin_accepts [] ''GET /users/{user_id}'' (terminal ''h'')
     = Inr [(''GET /users/{user_id}'', terminal ''h'')]
   \<and> ReplaceAll ''GET /users/{user_id}'' CHR ''_'' CHR ''-'' = ''GET /users/{user-id}''
   \<and> Get_checked standin_accepts (NewRouter []) ''/users/{user_id}'' (terminal ''h'') []
       = Inl (RefusedPattern ''GET /users/{user-id}'')
   \<and> muxWrapper_Handle_checked standin_accepts (newMuxWrapper []) ''/foo-bar'' (terminal ''h1'')
       = Inr (muxWrapper_Handle (newMuxWrapper []) ''/foo-bar'' (terminal ''h1''))
   \<and> ServeMux (muxWrapper_Handle (newMuxWrapper []) ''/foo-bar'' (terminal ''h1''))
       = [(''/foo-bar'', terminal ''h1''), (''/foo_bar'', terminal ''h1'')]
   \<and> muxWrapper_Handle_checked standin_accepts
        (muxWrapper_Handle (newMuxWrapper []) ''/foo-bar'' (terminal ''h1''))
        ''/foo_bar'' (terminal ''h2'')
       = Inl (RefusedPattern ''/foo_bar'')"
  by (simp add: Get_checked_def Router_handle_checked_def muxWrapper_Handle_checked_def
      ServeMux_Handle_checked_def standin_accepts_def muxWrapper_Handle_def ServeMux_Handle_def
      fullPattern_def NewRouter_def newMuxWrapper_def buildRootPath_def Contains_def
      ReplaceAll_def wrap_def Let_def)

subsection \<open>Joining a joined prefix again\<close>

text \<open>
  C9 (amended). Joining the join of \<open>a\<close> and \<open>b\<close> with \<open>c\<close> gives the join of \<open>a\<close>, \<open>b\<close> and
  \<open>c\<close> exactly when the join of \<open>a\<close> and \<open>b\<close> does not end with a slash; that is so
  whenever neither \<open>a\<close> nor \<open>b\<close> ends with two slashes.
\<close>

theorem buildRootPath_rejoin:
  "(buildRootPath [buildRootPath [a, b], c] = buildRootPath [a, b, c])
     = (\<not> HasSuffix (buildRootPath [a, b]) ''/'')
   \<and> (\<not> HasSuffix a ''//'' \<and> \<not> HasSuffix b ''//''
        \<longrightarrow> buildRootPath [buildRootPath [a, b], c] = buildRootPath [a, b, c])"
proof -
  have iff: "(buildRootPath [buildRootPath [a, b], c] = buildRootPath [a, b, c])
     = (\<not> HasSuffix (buildRootPath [a, b]) ''/'')"
    using buildRootPath_rejoin_list[of "[a, b]" "[c]"] by simp
  have "\<not> HasSuffix (buildRootPath [a, b]) ''/''"
    if "\<not> HasSuffix a ''//''" "\<not> HasSuffix b ''//''"
    using that last_kept_two[of a b] by (auto simp: buildRootPath_trailing)
  with iff show ?thesis by blast
qed

theorem buildRootPath_rejoin_counterexample:
  "buildRootPath [buildRootPath [''a'', ''b//''], ''x''] = ''/a/b/x''
   \<and> buildRootPath [''a'', ''b//'', ''x''] = ''/a/b//x''
   \<and> buildRootPath [buildRootPath [''a'', ''b//''], ''x''] \<noteq> buildRootPath [''a'', ''b//'', ''x'']"
  by (simp add: buildRootPath_def TrimPrefix_def TrimSuffix_def HasPrefix_def HasSuffix_def)

theorem buildRootPath_rejoin_witness:
  "\<not> HasSuffix ''/api/'' ''//'' \<and> \<not> HasSuffix ''v1/'' ''//''
   \<and> buildRootPath [buildRootPath [''/api/'', ''v1/''], ''users''] = ''/api/v1/users''
   \<and> buildRootPath [''/api/'', ''v1/'', ''users''] = ''/api/v1/users''"
proof -
  have h: "\<not> HasSuffix ''/api/'' ''//'' \<and> \<not> HasSuffix ''v1/'' ''//''"
    by (simp add: HasSuffix_def)
  have r: "buildRootPath [''/api/'', ''v1/'', ''users''] = ''/api/v1/users''"
    by (simp add: buildRootPath_def TrimPrefix_def TrimSuffix_def HasPrefix_def HasSuffix_def)
  from buildRootPath_rejoin[of "''/api/''" "''v1/''" "''users''"] h
  have "buildRootPath [buildRootPath [''/api/'', ''v1/''], ''users'']
          = buildRootPath [''/api/'', ''v1/'', ''users'']" by blast
  with h r show ?thesis by simp
qed

subsection \<open>Setting the base path\<close>

text \<open>
  C10 (amended). \<open>SetBasePath\<close> stores its argument as it is and touches nothing else, so
  \<open>BasePath\<close> returns exactly that string; a stored \<open>"/api/"\<close> or \<open>"api"\<close> is not of the
  normalized form. A prefix built by \<open>buildRootPath\<close> is always empty or starts with a
  slash, and it is of the normalized form when no segment ends with two slashes.
\<close>

theorem SetBasePath_verbatim:
  "BasePath (SetBasePath r p) = p
   \<and> rchain (SetBasePath r p) = rchain r
   \<and> ServeMux (mux (SetBasePath r p)) = ServeMux (mux r)
   \<and> \<not> normalized (BasePath (SetBasePath r ''/api/''))
   \<and> \<not> normalized (BasePath (SetBasePath r ''api''))
   \<and> (buildRootPath paths = '''' \<or> HasPrefix (buildRootPath paths) ''/'')
   \<and> ((\<forall>q \<in> set paths. \<not> HasSuffix q ''//'') \<longrightarrow> normalized (buildRootPath paths))"
proof -
  have c1: "BasePath (SetBasePath r p) = p" for p
    by (simp add: BasePath_def SetBasePath_def)
  have c2: "rchain (SetBasePath r p) = rchain r \<and> ServeMux (mux (SetBasePath r p)) = ServeMux (mux r)"
    by (simp add: SetBasePath_def)
  have c3: "\<not> normalized ''/api/''" "\<not> normalized ''api''"
    by (simp_all add: normalized_def HasPrefix_def HasSuffix_def)
  from c1 c2 c3 buildRootPath_leading[of paths] buildRootPath_normalized[of paths]
  show ?thesis by auto
qed

theorem SetBasePath_verbatim_counterexample:
  "buildRootPath [''api//''] = ''/api/'' \<and> \<not> normalized (buildRootPath [''api//''])
   \<and> buildRootPath [''//''] = ''/'' \<and> \<not> normalized (buildRootPath [''//''])"
  by (simp add: normalized_def buildRootPath_def TrimPrefix_def TrimSuffix_def HasPrefix_def
      HasSuffix_def)

theorem SetBasePath_verbatim_witness:
  "BasePath (SetBasePath (NewRouter []) ''api/'') = ''api/''
   \<and> \<not> HasSuffix ''/api/'' ''//'' \<and> \<not> HasSuffix ''v1'' ''//''
   \<and> normalized (buildRootPath [''/api/'', ''v1''])"
proof -
  have h: "\<forall>q \<in> set [''/api/'', ''v1'']. \<not> HasSuffix q ''//''"
    by (simp add: HasSuffix_def)
  from SetBasePath_verbatim[of "NewRouter []" "''api/''" "[''/api/'', ''v1'']"] h
  show ?thesis by simp
qed

end
